theory Spec2Isabelle
  imports Main "HOL-Library.AList" "HOL-Library.Sublist"
begin

section \<open>Values\<close>

text \<open>
  A model of \<open>ambassador/config/resourcefetcher.py\<close>. The fetcher works on decoded
  JSON and YAML, which Python holds in dictionaries and lists. The model types them by
  the way the code reads them: a dictionary whose keys the code asks for by name is a
  record of optional fields (\<open>None\<close> is what \<open>dict.get\<close> gives for an absent key), a
  dictionary that the code iterates or fills is an association list. A field that is
  present holds a value of the type the Kubernetes or Consul schema gives it; explicit
  nulls, booleans and floats in such fields are outside the model. Attribute values
  that the code treats as "a name or a number" (the \<open>port\<close>, \<open>name\<close> and
  \<open>targetPort\<close> of a service port spec) are integers or strings. Strings are ASCII
  character lists. Application resources, which the fetcher passes on without looking
  inside, carry generic \<open>pyval\<close> trees.
\<close>

datatype jval = JInt int | JStr string

datatype pyval =
    PNone
  | PBool bool
  | PInt int
  | PStr string
  | PList "pyval list"
  | PDict "(pyval \<times> pyval) list"

fun pv :: "jval \<Rightarrow> pyval" where
  "pv (JInt i) = PInt i"
| "pv (JStr s) = PStr s"

text \<open>Python truthiness: \<open>0\<close>, the empty string and \<open>None\<close> are false.\<close>

fun truthy :: "jval \<Rightarrow> bool" where
  "truthy (JInt i) = (i \<noteq> 0)"
| "truthy (JStr s) = (s \<noteq> [])"

fun truthy_opt :: "jval option \<Rightarrow> bool" where
  "truthy_opt None = False"
| "truthy_opt (Some v) = truthy v"

fun truthy_str :: "string option \<Rightarrow> bool" where
  "truthy_str None = False"
| "truthy_str (Some s) = (s \<noteq> [])"

fun truthy_int :: "int option \<Rightarrow> bool" where
  "truthy_int None = False"
| "truthy_int (Some i) = (i \<noteq> 0)"

text \<open>\<open>str(n)\<close> for an integer: its decimal digits, with a minus sign when negative.\<close>

definition digit_char :: "nat \<Rightarrow> char" where
  "digit_char d = ''0123456789'' ! d"

fun dec :: "nat \<Rightarrow> string" where
  "dec n = (if n < 10 then [digit_char n] else dec (n div 10) @ [digit_char (n mod 10)])"

declare dec.simps [simp del]

definition str_int :: "int \<Rightarrow> string" where
  "str_int i = (if i < 0 then CHR ''-'' # dec (nat (- i)) else dec (nat i))"

fun py_str :: "jval \<Rightarrow> string" where
  "py_str (JInt i) = str_int i"
| "py_str (JStr s) = s"

text \<open>\<open>s.isdigit()\<close>: at least one character, all of them decimal digits.\<close>

definition is_digit_char :: "char \<Rightarrow> bool" where
  "is_digit_char c = (c \<in> set ''0123456789'')"

definition isdigit :: "string \<Rightarrow> bool" where
  "isdigit s = (s \<noteq> [] \<and> list_all is_digit_char s)"

text \<open>
  A Python \<open>dict\<close> keeps its keys in insertion order and assigning to an existing key
  keeps the key's position: an association list with \<open>AList.update\<close>.
\<close>

abbreviation dict_set :: "'k \<Rightarrow> 'v \<Rightarrow> ('k \<times> 'v) list \<Rightarrow> ('k \<times> 'v) list" where
  "dict_set k v d \<equiv> AList.update k v d"

abbreviation dict_get :: "('k \<times> 'v) list \<Rightarrow> 'k \<Rightarrow> 'v option" where
  "dict_get d k \<equiv> map_of d k"

section \<open>Side tables\<close>

text \<open>A service port spec of \<open>k8s_services[key]['ports']\<close>.\<close>

record svc_port =
  sp_targetPort :: "jval option"
  sp_name :: "jval option"
  sp_port :: "jval option"

text \<open>\<open>port.get(attr)\<close> for the attribute names the finalizer asks for.\<close>

definition port_get :: "svc_port \<Rightarrow> string \<Rightarrow> jval option" where
  "port_get port attr =
     (if attr = ''targetPort'' then sp_targetPort port
      else if attr = ''name'' then sp_name port
      else if attr = ''port'' then sp_port port
      else None)"

record k8s_svc =
  svc_name :: string
  svc_namespace :: string
  svc_ports :: "svc_port list"

text \<open>An address as the Endpoints decoder stores it: every field is optional.\<close>

record addr =
  a_ip :: "string option"
  a_node :: "string option"
  a_target_kind :: "string option"
  a_target_name :: "string option"
  a_target_namespace :: "string option"

type_synonym port_dict = "(string \<times> int) list"

record k8s_ep =
  ep_name :: string
  ep_namespace :: string
  ep_addresses :: "addr list"
  ep_ports :: port_dict

record config =
  enable_endpoints :: bool
  single_namespace :: bool
  ambassador_namespace :: string
  ambassador_id :: pyval

text \<open>Calls of \<open>self.logger.error\<close>; debug logging is not modelled.\<close>

datatype logged =
    NoPortNumber string int
  | EmptyPortSpec string jval int
  | NoRoutablePorts string

section \<open>The finalizer: resolving one service\<close>

text \<open>
  The loop \<open>for attr in ['targetPort', 'name', 'port']\<close> with its three variables
  \<open>found_key\<close>, \<open>fallback\<close> and \<open>k8s_target\<close>; stopping the recursion is the
  \<open>break\<close>.
\<close>

type_synonym scan = "bool \<times> jval option \<times> int option"

fun scan_attrs :: "port_dict \<Rightarrow> svc_port \<Rightarrow> string list \<Rightarrow> scan \<Rightarrow> scan" where
  "scan_attrs k8s_ep_ports port [] st = st"
| "scan_attrs k8s_ep_ports port (attr # attrs) (found_key, fallback, k8s_target) =
     (case port_get port attr of
        None \<Rightarrow> scan_attrs k8s_ep_ports port attrs (found_key, fallback, k8s_target)
      | Some port_key \<Rightarrow>
          if \<not> truthy port_key
          then scan_attrs k8s_ep_ports port attrs (found_key, fallback, k8s_target)
          else
            let fallback' =
                  (if \<not> truthy_opt fallback \<and> port_key \<noteq> JStr ''name''
                      \<and> isdigit (py_str port_key)
                   then Some port_key else fallback);
                k8s_target' = dict_get k8s_ep_ports (py_str port_key)
            in if truthy_int k8s_target' then (True, fallback', k8s_target')
               else scan_attrs k8s_ep_ports port attrs (True, fallback', k8s_target'))"

text \<open>\<open>fallback or src_port\<close>.\<close>

definition fallback_or :: "jval option \<Rightarrow> jval \<Rightarrow> jval" where
  "fallback_or fallback src_port =
     (case fallback of Some f \<Rightarrow> (if truthy f then f else src_port) | None \<Rightarrow> src_port)"

type_synonym target_ports = "(jval \<times> jval) list"

text \<open>The body of \<open>for port in k8s_svc['ports']\<close>, for the port spec at index \<open>idx\<close>.\<close>

definition resolve_port ::
  "string \<Rightarrow> port_dict \<Rightarrow> int \<Rightarrow> svc_port \<Rightarrow> target_ports \<times> logged list
     \<Rightarrow> target_ports \<times> logged list" where
  "resolve_port key k8s_ep_ports idx port acc =
     (case acc of (target_ports, log) \<Rightarrow>
        if \<not> truthy_opt (sp_port port) then (target_ports, log @ [NoPortNumber key idx])
        else
          let src_port = the (sp_port port) in
          if length k8s_ep_ports = 1
          then (dict_set src_port (JInt (snd (hd k8s_ep_ports))) target_ports, log)
          else
            (case scan_attrs k8s_ep_ports port [''targetPort'', ''name'', ''port'']
                    (False, None, None) of
               (found_key, fallback, k8s_target) \<Rightarrow>
                 if \<not> found_key
                 then (target_ports, log @ [EmptyPortSpec key src_port idx])
                 else
                   (dict_set src_port
                      (if truthy_int k8s_target then JInt (the k8s_target)
                       else fallback_or fallback src_port)
                      target_ports, log)))"

fun resolve_ports ::
  "string \<Rightarrow> port_dict \<Rightarrow> int \<Rightarrow> svc_port list \<Rightarrow> target_ports \<times> logged list
     \<Rightarrow> target_ports \<times> logged list" where
  "resolve_ports key k8s_ep_ports idx [] acc = acc"
| "resolve_ports key k8s_ep_ports idx (port # ports) acc =
     resolve_ports key k8s_ep_ports (idx + 1) ports
       (resolve_port key k8s_ep_ports idx port acc)"

text \<open>The addresses of the endpoint entry that carry a non-empty \<open>ip\<close>.\<close>

fun collect_ips :: "addr list \<Rightarrow> string list" where
  "collect_ips [] = []"
| "collect_ips (a # as) =
     (if truthy_str (a_ip a) then the (a_ip a) # collect_ips as else collect_ips as)"

text \<open>
  The first half of the loop body of \<open>finalize\<close>: \<open>target_ports\<close> and
  \<open>target_addrs\<close> as they stand at line 789, with what was logged.
\<close>

definition resolve_targets ::
  "string \<Rightarrow> k8s_svc \<Rightarrow> k8s_ep option \<Rightarrow> target_ports \<times> string list \<times> logged list" where
  "resolve_targets key k8s_svc k8s_ep =
     (case k8s_ep of
        None \<Rightarrow> ([], [], [])
      | Some ep \<Rightarrow>
          if ep_ports ep = [] then ([], [], [])
          else
            (case resolve_ports key (ep_ports ep) 0 (svc_ports k8s_svc) ([], []) of
               (target_ports, log) \<Rightarrow>
                 (target_ports, collect_ips (ep_addresses ep),
                  (if target_ports = [] then log @ [NoRoutablePorts key] else log))))"

text \<open>\<open>if not target_addrs: target_addrs = [ key ]\<close>.\<close>

definition final_addrs :: "string \<Rightarrow> string list \<Rightarrow> string list" where
  "final_addrs key target_addrs = (if target_addrs = [] then [key] else target_addrs)"

definition endpoint_of :: "jval \<Rightarrow> string \<Rightarrow> pyval" where
  "endpoint_of target_port target_addr =
     PDict [(PStr ''ip'', PStr target_addr), (PStr ''port'', pv target_port)]"

text \<open>\<open>for src_port, target_port in target_ports.items(): svc_endpoints[src_port] = ...\<close>\<close>

fun build_endpoints ::
  "string list \<Rightarrow> target_ports \<Rightarrow> (pyval \<times> pyval) list \<Rightarrow> (pyval \<times> pyval) list" where
  "build_endpoints target_addrs [] svc_endpoints = svc_endpoints"
| "build_endpoints target_addrs ((src_port, target_port) # rest) svc_endpoints =
     build_endpoints target_addrs rest
       (dict_set (pv src_port) (PList (map (endpoint_of target_port) target_addrs))
          svc_endpoints)"

text \<open>
  An application resource: a field bag. The fields that the fetcher itself reads
  (\<open>kind\<close>, \<open>name\<close>, \<open>source\<close>) are typed; \<open>o_fields\<close> holds all the others.
\<close>

record app_obj =
  o_kind :: "string option"
  o_name :: "string option"
  o_source :: "string option"
  o_fields :: "(string \<times> pyval) list"

definition k8s_service_key :: "k8s_svc \<Rightarrow> string" where
  "k8s_service_key k8s_svc = ''k8s-'' @ svc_name k8s_svc @ ''-'' @ svc_namespace k8s_svc"

text \<open>The dictionary stored in \<open>self.services\<close> at line 802.\<close>

definition k8s_service :: "config \<Rightarrow> k8s_svc \<Rightarrow> (pyval \<times> pyval) list \<Rightarrow> app_obj" where
  "k8s_service cfg k8s_svc svc_endpoints =
     \<lparr> o_kind = Some ''Service'',
       o_name = Some (svc_name k8s_svc),
       o_source = None,
       o_fields = [(''apiVersion'', PStr ''ambassador/v1''),
                   (''ambassador_id'', ambassador_id cfg),
                   (''namespace'', PStr (svc_namespace k8s_svc)),
                   (''endpoints'', PDict svc_endpoints)] \<rparr>"

text \<open>One turn of \<open>for key, k8s_svc in self.k8s_services.items()\<close>.\<close>

definition resolve_service ::
  "config \<Rightarrow> (string \<times> k8s_ep) list \<Rightarrow> string \<Rightarrow> k8s_svc \<Rightarrow> app_obj \<times> logged list" where
  "resolve_service cfg k8s_endpoints key k8s_svc =
     (case resolve_targets key k8s_svc (dict_get k8s_endpoints key) of
        (target_ports, target_addrs, log) \<Rightarrow>
          (k8s_service cfg k8s_svc
             (build_endpoints (final_addrs key target_addrs) target_ports []), log))"

section \<open>The fetcher's state\<close>

datatype pyerror = KeyError string | IndexError | Exception string

text \<open>What \<open>self.aconf.post_error\<close> received.\<close>

datatype diag =
    IsEmpty string
  | NotADictionary string
  | MissingKind string
  | Construction string
  | CouldNotParseWatt string
  | IgnoreCrds
  | IgnoreCrds2

record 'r fetcher =
  elements :: "'r list"
  filename :: "string option"
  ocount :: int
  saved :: "(string option \<times> int) list"
  k8s_endpoints :: "(string \<times> k8s_ep) list"
  k8s_services :: "(string \<times> k8s_svc) list"
  services :: "(string \<times> app_obj) list"
  errors :: "diag list"
  logged :: "logged list"

text \<open>\<open>ResourceFetcher.__init__\<close>.\<close>

definition init :: "'r fetcher" where
  "init = \<lparr> elements = [], filename = None, ocount = 1, saved = [],
            k8s_endpoints = [], k8s_services = [], services = [],
            errors = [], logged = [] \<rparr>"

text \<open>A raised exception leaves the fetcher as it was when the exception was raised.\<close>

type_synonym 'r result = "(pyerror \<times> 'r fetcher) + 'r fetcher"

datatype obj = NonDict pyval | Dict app_obj

text \<open>
  What the fetcher calls but does not define: the configuration, \<open>dump_yaml\<close> and
  \<open>parse_yaml\<close> of \<open>utils\<close> (\<open>None\<close> is a \<open>YAMLError\<close>),
  \<open>ACResource.from_dict\<close> (\<open>Inl\<close> is the message of the exception it raised, \<open>Inr\<close>
  the resource it built) and \<open>Config.good_ambassador_id\<close>.
\<close>

record 'r env =
  cfg :: config
  dump_yaml :: "app_obj \<Rightarrow> string"
  parse_yaml :: "string \<Rightarrow> obj list option"
  from_dict :: "string \<Rightarrow> string \<Rightarrow> string \<Rightarrow> app_obj \<Rightarrow> string + 'r"
  good_ambassador_id :: "app_obj \<Rightarrow> bool"

definition post_error :: "diag \<Rightarrow> 'r fetcher \<Rightarrow> 'r fetcher" where
  "post_error d s = s\<lparr>errors := errors s @ [d]\<rparr>"

definition location :: "'r fetcher \<Rightarrow> string" where
  "location s =
     (if truthy_str (filename s) then the (filename s) else ''anonymous YAML'')
       @ ''.'' @ str_int (ocount s)"

definition push_location :: "string option \<Rightarrow> int \<Rightarrow> 'r fetcher \<Rightarrow> 'r fetcher" where
  "push_location fname oc s =
     s\<lparr>saved := saved s @ [(filename s, ocount s)], filename := fname, ocount := oc\<rparr>"

definition pop_location :: "'r fetcher \<Rightarrow> 'r result" where
  "pop_location s =
     (if saved s = [] then Inl (IndexError, s)
      else Inr (s\<lparr>filename := fst (last (saved s)), ocount := snd (last (saved s)),
                  saved := butlast (saved s)\<rparr>))"

section \<open>Decoders\<close>

subsection \<open>Kubernetes objects\<close>

text \<open>
  A Kubernetes object as the decoders read it. \<open>spec_ports\<close> is \<open>spec['ports']\<close>
  as the Service decoder reads it, \<open>spec_body\<close> is \<open>spec\<close> as the field bag that
  the CRD decoder copies.
\<close>

record target_ref =
  tr_kind :: "string option"
  tr_name :: "string option"
  tr_namespace :: "string option"

record address =
  ad_ip :: "string option"
  ad_nodeName :: "string option"
  ad_targetRef :: "target_ref option"

record ep_port =
  pt_name :: "string option"
  pt_port :: "int option"
  pt_protocol :: "string option"

record subset =
  ss_addresses :: "address list"
  ss_ports :: "ep_port list"

record metadata =
  md_name :: "string option"
  md_namespace :: "string option"
  md_annotations :: "(string \<times> string) list option"

record k8s_spec =
  spec_ports :: "svc_port list option"
  spec_body :: app_obj

record k8s_object =
  ko_kind :: "string option"
  ko_apiVersion :: "string option"
  ko_type :: "string option"
  ko_metadata :: "metadata option"
  ko_subsets :: "subset list option"
  ko_spec :: "k8s_spec option"
  ko_data :: "(string \<times> string) list option"

type_synonym handler_result = "(string \<times> obj list) option"

definition upper_char :: "char \<Rightarrow> char" where
  "upper_char c =
     (case map_of (zip ''abcdefghijklmnopqrstuvwxyz'' ''ABCDEFGHIJKLMNOPQRSTUVWXYZ'') c of
        Some u \<Rightarrow> u | None \<Rightarrow> c)"


definition upper :: "string \<Rightarrow> string" where
  "upper s = map upper_char s"


definition endswith :: "string \<Rightarrow> string \<Rightarrow> bool" where
  "endswith s ending =
     (length ending \<le> length s \<and> drop (length s - length ending) s = ending)"

definition resource_identifier :: "string \<Rightarrow> string \<Rightarrow> string" where
  "resource_identifier resource_name resource_namespace =
     resource_name @ ''.'' @ resource_namespace"

definition namespace_of :: "metadata \<Rightarrow> string" where
  "namespace_of md = (case md_namespace md of Some ns \<Rightarrow> ns | None \<Rightarrow> ''default'')"

subsection \<open>\<open>handle_k8s_endpoints\<close>\<close>

text \<open>The dictionary \<open>addr\<close> built from one address of a subset (lines 385 to 407).\<close>

definition stored_addr :: "address \<Rightarrow> addr" where
  "stored_addr address =
     \<lparr> a_ip = ad_ip address,
       a_node = ad_nodeName address,
       a_target_kind = (case ad_targetRef address of None \<Rightarrow> None | Some r \<Rightarrow> tr_kind r),
       a_target_name = (case ad_targetRef address of None \<Rightarrow> None | Some r \<Rightarrow> tr_name r),
       a_target_namespace =
         (case ad_targetRef address of None \<Rightarrow> None | Some r \<Rightarrow> tr_namespace r) \<rparr>"

text \<open>\<open>len(addr)\<close>: how many keys the dictionary has.\<close>

definition addr_len :: "addr \<Rightarrow> nat" where
  "addr_len a =
     length (filter (\<lambda>f. f \<noteq> None)
       [a_ip a, a_node a, a_target_kind a, a_target_name a, a_target_namespace a])"

fun collect_addresses :: "address list \<Rightarrow> addr list" where
  "collect_addresses [] = []"
| "collect_addresses (address # rest) =
     (if addr_len (stored_addr address) > 0
      then stored_addr address # collect_addresses rest
      else collect_addresses rest)"

fun build_port_dict :: "ep_port list \<Rightarrow> port_dict \<Rightarrow> port_dict" where
  "build_port_dict [] port_dict = port_dict"
| "build_port_dict (port # ports) port_dict =
     (if upper (case pt_protocol port of Some p \<Rightarrow> p | None \<Rightarrow> ''TCP'') \<noteq> ''TCP''
      then build_port_dict ports port_dict
      else
        (case pt_port port of
           None \<Rightarrow> build_port_dict ports port_dict
         | Some port_number \<Rightarrow>
             build_port_dict ports
               (if truthy_str (pt_name port)
                then dict_set (the (pt_name port)) port_number
                       (dict_set (str_int port_number) port_number port_dict)
                else dict_set (str_int port_number) port_number port_dict)))"

text \<open>The loop \<open>for subset in resource_subsets\<close>.\<close>

fun handle_subsets ::
  "string \<Rightarrow> string \<Rightarrow> subset list \<Rightarrow> (string \<times> k8s_ep) list \<Rightarrow> (string \<times> k8s_ep) list" where
  "handle_subsets resource_name resource_namespace [] tbl = tbl"
| "handle_subsets resource_name resource_namespace (sset # rest) tbl =
     (let addresses = collect_addresses (ss_addresses sset) in
      if addresses = [] then handle_subsets resource_name resource_namespace rest tbl
      else
        let port_dict = build_port_dict (ss_ports sset) [] in
        if port_dict \<noteq> []
        then handle_subsets resource_name resource_namespace rest
               (dict_set (resource_identifier resource_name resource_namespace)
                  \<lparr> ep_name = resource_name, ep_namespace = resource_namespace,
                    ep_addresses = addresses, ep_ports = port_dict \<rparr> tbl)
        else handle_subsets resource_name resource_namespace rest tbl)"


subsection \<open>Application resources: \<open>process_object\<close> and \<open>parse_object\<close>\<close>

fun py_truthy :: "pyval \<Rightarrow> bool" where
  "py_truthy PNone = False"
| "py_truthy (PBool b) = b"
| "py_truthy (PInt i) = (i \<noteq> 0)"
| "py_truthy (PStr s) = (s \<noteq> [])"
| "py_truthy (PList xs) = (xs \<noteq> [])"
| "py_truthy (PDict kvs) = (kvs \<noteq> [])"

text \<open>\<open>"%s" % x\<close> for an optional string: \<open>None\<close> prints as \<open>None\<close>.\<close>

definition fmt_s :: "string option \<Rightarrow> string" where
  "fmt_s x = (case x of Some s \<Rightarrow> s | None \<Rightarrow> ''None'')"

definition process_object :: "'r env \<Rightarrow> obj \<Rightarrow> string option \<Rightarrow> 'r fetcher \<Rightarrow> 'r result" where
  "process_object env ob rkey s =
     (case ob of
        NonDict v \<Rightarrow>
          if \<not> py_truthy v then Inr (post_error (IsEmpty (location s)) s)
          else Inr (post_error (NotADictionary (location s)) s)
      | Dict d \<Rightarrow>
          if \<not> good_ambassador_id env d then Inr s
          else
            (case o_kind d of
               None \<Rightarrow> Inr (post_error (MissingKind (location s)) s)
             | Some kind \<Rightarrow>
                 if kind = ''Pragma''
                 then Inr (s\<lparr>filename :=
                               (if truthy_str (o_source d) then o_source d else filename s),
                             ocount := ocount s - 1\<rparr>)
                 else
                   let rkey' = fmt_s (if truthy_str rkey then rkey else filename s)
                                 @ ''.'' @ str_int (ocount s) in
                   if kind = ''Service''
                   then
                     (case o_name d of
                        None \<Rightarrow> Inl (KeyError ''name'', s)
                      | Some n \<Rightarrow> Inr (s\<lparr>services := dict_set n d (services s)\<rparr>))
                   else
                     (case from_dict env rkey' rkey' (dump_yaml env d) d of
                        Inr r \<Rightarrow> Inr (s\<lparr>elements := elements s @ [r]\<rparr>)
                      | Inl msg \<Rightarrow> Inr (post_error (Construction msg) s))))"

text \<open>The loop of \<open>parse_object\<close> when \<open>k8s\<close> is false.\<close>

fun process_objects :: "'r env \<Rightarrow> obj list \<Rightarrow> string option \<Rightarrow> 'r fetcher \<Rightarrow> 'r result" where
  "process_objects env [] rkey s = Inr s"
| "process_objects env (ob # objects) rkey s =
     (case process_object env ob rkey s of
        Inl e \<Rightarrow> Inl e
      | Inr s' \<Rightarrow> process_objects env objects rkey (s'\<lparr>ocount := ocount s' + 1\<rparr>))"

text \<open>\<open>parse_object(objects, k8s=False, rkey, filename)\<close>.\<close>

definition parse_object ::
  "'r env \<Rightarrow> obj list \<Rightarrow> string option \<Rightarrow> string option \<Rightarrow> 'r fetcher \<Rightarrow> 'r result" where
  "parse_object env objects rkey fname s =
     (case process_objects env objects rkey (push_location fname 1 s) of
        Inl e \<Rightarrow> Inl e
      | Inr s' \<Rightarrow> pop_location s')"

subsection \<open>\<open>handle_k8s_service\<close>\<close>

definition config_annotation :: "metadata \<Rightarrow> string option" where
  "config_annotation md =
     (case md_annotations md of
        None \<Rightarrow> None
      | Some annotations \<Rightarrow>
          if annotations = [] then None
          else dict_get annotations ''getambassador.io/config'')"

definition wrong_namespace :: "config \<Rightarrow> string \<Rightarrow> bool" where
  "wrong_namespace cf resource_namespace =
     (single_namespace cf \<and> resource_namespace \<noteq> ambassador_namespace cf)"

definition handle_k8s_service ::
  "'r env \<Rightarrow> k8s_object \<Rightarrow> 'r fetcher \<Rightarrow> 'r fetcher \<times> handler_result" where
  "handle_k8s_service env k8s_object s =
     (case ko_metadata k8s_object of
        None \<Rightarrow> (s, None)
      | Some md \<Rightarrow>
          if \<not> truthy_str (md_name md) then (s, None)
          else if wrong_namespace (cfg env) (namespace_of md) then (s, None)
          else
            let resource_name = the (md_name md);
                resource_namespace = namespace_of md;
                ident = resource_identifier resource_name resource_namespace;
                ports = (case ko_spec k8s_object of None \<Rightarrow> None | Some sp \<Rightarrow> spec_ports sp);
                s1 = (case ports of
                        None \<Rightarrow> s
                      | Some ps \<Rightarrow>
                          if ps = [] then s
                          else s\<lparr>k8s_services :=
                                   dict_set ident
                                     \<lparr> svc_name = resource_name,
                                       svc_namespace = resource_namespace,
                                       svc_ports = ps \<rparr> (k8s_services s)\<rparr>)
            in
              if truthy_str (config_annotation md)
              then
                (s1\<lparr>filename :=
                      (case filename s1 of
                         None \<Rightarrow> None
                       | Some f \<Rightarrow>
                           if \<not> endswith f '':annotation'' then Some (f @ '':annotation'')
                           else Some f)\<rparr>,
                 Some (ident,
                       (case parse_yaml env (the (config_annotation md)) of
                          Some objects \<Rightarrow> objects | None \<Rightarrow> [])))
              else (s1, Some (ident, [])))"

subsection \<open>\<open>handle_k8s_secret\<close>\<close>


subsection \<open>\<open>handle_k8s_crd\<close>\<close>



subsection \<open>\<open>handle_consul_service\<close>\<close>

record consul_ep =
  ce_ID :: "string option"
  ce_Address :: "string option"
  ce_Port :: "int option"

record consul_object =
  co_Endpoints :: "consul_ep list"
  co_Service :: "string option"
  co_Id :: "string option"

definition consul_endpoint :: "string \<Rightarrow> int \<Rightarrow> pyval" where
  "consul_endpoint ep_addr ep_port =
     PDict [(PStr ''ip'', PStr ep_addr), (PStr ''port'', PInt ep_port),
            (PStr ''target_kind'', PStr ''Consul'')]"

text \<open>\<open>svc['endpoints'].setdefault('*', []).append(e)\<close>\<close>

definition append_wildcard :: "pyval \<Rightarrow> (pyval \<times> pyval) list \<Rightarrow> (pyval \<times> pyval) list" where
  "append_wildcard e endpoints =
     (case dict_get endpoints (PStr ''*'') of
        Some (PList svc_eps) \<Rightarrow> dict_set (PStr ''*'') (PList (svc_eps @ [e])) endpoints
      | _ \<Rightarrow> dict_set (PStr ''*'') (PList [e]) endpoints)"

text \<open>
  The loop \<open>for ep in endpoints\<close>. The message logged for a skipped endpoint reads
  \<open>ep['ID']\<close>, which raises \<open>KeyError\<close> when the endpoint has no \<open>ID\<close>.
\<close>

fun consul_endpoints ::
  "consul_ep list \<Rightarrow> (pyval \<times> pyval) list \<Rightarrow> pyerror + (pyval \<times> pyval) list" where
  "consul_endpoints [] endpoints = Inr endpoints"
| "consul_endpoints (ep # rest) endpoints =
     (if \<not> truthy_str (ce_Address ep) \<or> \<not> truthy_int (ce_Port ep)
      then (case ce_ID ep of
              None \<Rightarrow> Inl (KeyError ''ID'')
            | Some i \<Rightarrow> consul_endpoints rest endpoints)
      else consul_endpoints rest
             (append_wildcard (consul_endpoint (the (ce_Address ep)) (the (ce_Port ep)))
                endpoints))"

definition consul_name :: "string \<Rightarrow> consul_object \<Rightarrow> string" where
  "consul_name consul_rkey consul_object =
     (case co_Service consul_object of Some n \<Rightarrow> n | None \<Rightarrow> consul_rkey)"

definition consul_datacenter :: "consul_object \<Rightarrow> string" where
  "consul_datacenter consul_object =
     (if truthy_str (co_Id consul_object) then the (co_Id consul_object) else ''dc1'')"

definition consul_service_key :: "string \<Rightarrow> consul_object \<Rightarrow> string" where
  "consul_service_key consul_rkey consul_object =
     ''consul-'' @ consul_name consul_rkey consul_object @ ''-''
       @ consul_datacenter consul_object"

definition consul_service ::
  "config \<Rightarrow> string \<Rightarrow> consul_object \<Rightarrow> (pyval \<times> pyval) list \<Rightarrow> app_obj" where
  "consul_service cf consul_rkey consul_object endpoints =
     \<lparr> o_kind = Some ''Service'',
       o_name = Some (consul_name consul_rkey consul_object),
       o_source = None,
       o_fields = [(''apiVersion'', PStr ''ambassador/v1''),
                   (''ambassador_id'', ambassador_id cf),
                   (''datacenter'', PStr (consul_datacenter consul_object)),
                   (''endpoints'', PDict endpoints)] \<rparr>"

text \<open>The state after the call, or the exception; the handler's result is \<open>None\<close>.\<close>

definition handle_consul_service ::
  "config \<Rightarrow> string \<Rightarrow> consul_object \<Rightarrow> 'r fetcher \<Rightarrow> 'r result \<times> handler_result" where
  "handle_consul_service cf consul_rkey consul_object s =
     (if length (co_Endpoints consul_object) < 1 then (Inr s, None)
      else
        (case consul_endpoints (co_Endpoints consul_object) [] of
           Inl e \<Rightarrow> (Inl (e, s), None)
         | Inr endpoints \<Rightarrow>
             (Inr (s\<lparr>services :=
                       dict_set (consul_service_key consul_rkey consul_object)
                         (consul_service cf consul_rkey consul_object endpoints)
                         (services s)\<rparr>), None)))"

subsection \<open>\<open>handle_k8s\<close> and \<open>parse_object\<close> for Kubernetes objects\<close>





section \<open>The finalizer\<close>

text \<open>The loop \<open>for key, k8s_svc in self.k8s_services.items()\<close>.\<close>

fun resolve_services ::
  "config \<Rightarrow> (string \<times> k8s_ep) list \<Rightarrow> (string \<times> k8s_svc) list
     \<Rightarrow> (string \<times> app_obj) list \<times> logged list \<Rightarrow> (string \<times> app_obj) list \<times> logged list" where
  "resolve_services cf eps [] acc = acc"
| "resolve_services cf eps ((key, k8s_svc) # rest) (svcs, log) =
     resolve_services cf eps rest
       (dict_set (k8s_service_key k8s_svc) (fst (resolve_service cf eps key k8s_svc)) svcs,
        log @ snd (resolve_service cf eps key k8s_svc))"

text \<open>
  The loop \<open>for key, svc in self.services.items()\<close>: an exception of
  \<open>ACResource.from_dict\<close> is not caught here.
\<close>

fun emit_services :: "'r env \<Rightarrow> (string \<times> app_obj) list \<Rightarrow> 'r fetcher \<Rightarrow> 'r result" where
  "emit_services env [] s = Inr s"
| "emit_services env ((key, svc) # rest) s =
     (case from_dict env key key (dump_yaml env svc) svc of
        Inl msg \<Rightarrow> Inl (Exception msg, s)
      | Inr r \<Rightarrow> emit_services env rest (s\<lparr>elements := elements s @ [r]\<rparr>))"

definition finalize :: "'r env \<Rightarrow> 'r fetcher \<Rightarrow> 'r result" where
  "finalize env s =
     (case resolve_services (cfg env) (k8s_endpoints s) (k8s_services s)
             (services s, logged s) of
        (svcs, log) \<Rightarrow> emit_services env svcs (s\<lparr>services := svcs, logged := log\<rparr>))"

section \<open>\<open>parse_watt\<close>\<close>

text \<open>
  The readers \<open>load_from_filesystem\<close>, \<open>parse_yaml\<close> and \<open>parse_json\<close> read
  files and call the YAML and JSON parsers, then hand the objects to \<open>parse_object\<close>
  and, when asked, call \<open>finalize\<close>; they are not modelled. \<open>parse_watt\<close> is
  modelled from the decoded snapshot on.
\<close>








section \<open>The port rule in the words of the specification\<close>

text \<open>
  The values of the attributes of a port spec, in the order of \<open>attrs\<close>, that are
  present and true in Python's sense: these are the keys that are tried.
\<close>

definition tried_of :: "svc_port \<Rightarrow> string list \<Rightarrow> jval list" where
  "tried_of port attrs = filter truthy (List.map_filter (port_get port) attrs)"

text \<open>A lookup hits when the endpoint port map has the key with a port that is not 0.\<close>

definition spec_hit :: "port_dict \<Rightarrow> jval \<Rightarrow> int option" where
  "spec_hit k8s_ep_ports v =
     (case dict_get k8s_ep_ports (py_str v) of
        Some t \<Rightarrow> (if t \<noteq> 0 then Some t else None)
      | None \<Rightarrow> None)"

text \<open>
  The first hit wins; with no hit, the candidate remembered so far, else the first
  digit-only value, else the source port.
\<close>

definition spec_pick :: "port_dict \<Rightarrow> jval list \<Rightarrow> jval option \<Rightarrow> jval \<Rightarrow> jval" where
  "spec_pick k8s_ep_ports vs remembered src_port =
     (case List.map_filter (spec_hit k8s_ep_ports) vs of
        t # _ \<Rightarrow> JInt t
      | [] \<Rightarrow>
          (case remembered of
             Some f \<Rightarrow> f
           | None \<Rightarrow>
               (case find (\<lambda>v. isdigit (py_str v)) vs of
                  Some f \<Rightarrow> f
                | None \<Rightarrow> src_port)))"

definition spec_resolve :: "port_dict \<Rightarrow> svc_port \<Rightarrow> jval" where
  "spec_resolve k8s_ep_ports port =
     spec_pick k8s_ep_ports (tried_of port [''targetPort'', ''name'', ''port'']) None
       (the (sp_port port))"

text \<open>The target that lines 762 to 771 take from the variables of the scan.\<close>

definition target_after :: "scan \<Rightarrow> jval \<Rightarrow> jval" where
  "target_after st src_port =
     (case st of (found_key, fallback, k8s_target) \<Rightarrow>
        if truthy_int k8s_target then JInt (the k8s_target)
        else fallback_or fallback src_port)"

text \<open>Reading an emitted Service resource: its \<open>endpoints\<close> and the addresses in them.\<close>

definition svc_endpoints_of :: "app_obj \<Rightarrow> (pyval \<times> pyval) list" where
  "svc_endpoints_of svc =
     (case dict_get (o_fields svc) ''endpoints'' of Some (PDict e) \<Rightarrow> e | _ \<Rightarrow> [])"

fun endpoint_ip :: "pyval \<Rightarrow> pyval option" where
  "endpoint_ip (PDict kvs) = dict_get kvs (PStr ''ip'')"
| "endpoint_ip v = None"

fun endpoint_ips :: "pyval \<Rightarrow> pyval list" where
  "endpoint_ips (PList es) = List.map_filter endpoint_ip es"
| "endpoint_ips v = []"

definition service_addresses :: "app_obj \<Rightarrow> pyval list" where
  "service_addresses svc = concat (map (\<lambda>kv. endpoint_ips (snd kv)) (svc_endpoints_of svc))"

section \<open>Notions used in the statements\<close>

text \<open>The decision of line 426: the protocol, \<open>TCP\<close> when absent, upper-cased.\<close>

definition is_tcp :: "ep_port \<Rightarrow> bool" where
  "is_tcp port = (upper (case pt_protocol port of Some p \<Rightarrow> p | None \<Rightarrow> ''TCP'') = ''TCP'')"

text \<open>
  What a port spec falls back to when no lookup hits: the first of its tried values
  that is digit-only, or else its source port.
\<close>

definition own_value :: "svc_port \<Rightarrow> jval" where
  "own_value port =
     (case find (\<lambda>v. isdigit (py_str v)) (tried_of port [''targetPort'', ''name'', ''port'']) of
        Some f \<Rightarrow> f
      | None \<Rightarrow> the (sp_port port))"

text \<open>A Consul endpoint that is kept: it has an address and a port.\<close>

definition consul_good :: "consul_ep \<Rightarrow> bool" where
  "consul_good ep = (truthy_str (ce_Address ep) \<and> truthy_int (ce_Port ep))"

text \<open>The entries that the first loop of the finalizer assigns, in order.\<close>

definition resolved_entries ::
  "config \<Rightarrow> (string \<times> k8s_ep) list \<Rightarrow> (string \<times> k8s_svc) list \<Rightarrow> (string \<times> app_obj) list" where
  "resolved_entries cf eps ks =
     map (\<lambda>(key, k8s_svc). (k8s_service_key k8s_svc, fst (resolve_service cf eps key k8s_svc))) ks"

definition assign_all :: "('k \<times> 'v) list \<Rightarrow> ('k \<times> 'v) list \<Rightarrow> ('k \<times> 'v) list" where
  "assign_all us d = fold (\<lambda>(k, v). dict_set k v) us d"

text \<open>What \<open>ACResource.from_dict\<close> is asked to build from the services table.\<close>

definition resources_of :: "'r env \<Rightarrow> (string \<times> app_obj) list \<Rightarrow> (string + 'r) list" where
  "resources_of env svcs = map (\<lambda>(key, svc). from_dict env key key (dump_yaml env svc) svc) svcs"

text \<open>Sequencing: the second step runs on the state the first returned, unless it raised.\<close>

definition then_do :: "'r result \<Rightarrow> ('r fetcher \<Rightarrow> 'r result) \<Rightarrow> 'r result" where
  "then_do r f = (case r of Inl e \<Rightarrow> Inl e | Inr s \<Rightarrow> f s)"

text \<open>A step only appends to \<open>elements\<close>, whether it returns or raises.\<close>

definition state_of :: "'r result \<Rightarrow> 'r fetcher" where
  "state_of r = (case r of Inl (e, s') \<Rightarrow> s' | Inr s' \<Rightarrow> s')"

definition grows :: "'r fetcher \<Rightarrow> 'r result \<Rightarrow> bool" where
  "grows s r = prefix (elements s) (elements (state_of r))"

text \<open>The order of the keys of a dictionary after assigning to the keys \<open>ks\<close> in turn.\<close>

definition key_order :: "'k list \<Rightarrow> 'k list \<Rightarrow> 'k list" where
  "key_order keys ks = fold (\<lambda>k keys'. if k \<in> set keys' then keys' else keys' @ [k]) ks keys"


section \<open>Example data\<close>

definition ex_cfg :: config where
  "ex_cfg = \<lparr> enable_endpoints = True, single_namespace = False,
              ambassador_namespace = ''default'', ambassador_id = PStr ''default'' \<rparr>"

definition ex_addr :: "string \<Rightarrow> addr" where
  "ex_addr ip = \<lparr> a_ip = Some ip, a_node = None, a_target_kind = None,
                  a_target_name = None, a_target_namespace = None \<rparr>"

definition ex_ep_single :: k8s_ep where
  "ex_ep_single = \<lparr> ep_name = ''svc'', ep_namespace = ''default'',
                    ep_addresses = [ex_addr ''10.0.0.1''], ep_ports = [(''8080'', 8080)] \<rparr>"

definition ex_ports_http :: port_dict where
  "ex_ports_http = [(''8080'', 8080), (''http'', 8080)]"

definition ex_port_web :: svc_port where
  "ex_port_web = \<lparr> sp_targetPort = Some (JInt 9999), sp_name = Some (JStr ''web''),
                   sp_port = Some (JInt 80) \<rparr>"

definition ex_svc_web :: k8s_svc where
  "ex_svc_web = \<lparr> svc_name = ''svc'', svc_namespace = ''default'', svc_ports = [ex_port_web] \<rparr>"

definition ex_port_noport :: svc_port where
  "ex_port_noport = \<lparr> sp_targetPort = Some (JInt 8080), sp_name = Some (JStr ''http''),
                      sp_port = None \<rparr>"

definition ex_svc_noport :: k8s_svc where
  "ex_svc_noport = \<lparr> svc_name = ''svc'', svc_namespace = ''default'',
                     svc_ports = [ex_port_noport] \<rparr>"

definition ex_port_a :: svc_port where
  "ex_port_a = \<lparr> sp_targetPort = Some (JStr ''http''), sp_name = None,
                 sp_port = Some (JInt 80) \<rparr>"

definition ex_port_target_only :: svc_port where
  "ex_port_target_only = \<lparr> sp_targetPort = Some (JStr ''http''), sp_name = None,
                           sp_port = None \<rparr>"

definition ex_port_9999_only :: svc_port where
  "ex_port_9999_only = \<lparr> sp_targetPort = Some (JInt 9999), sp_name = None, sp_port = None \<rparr>"

definition ex_ports_https :: port_dict where
  "ex_ports_https = [(''8443'', 8443), (''https'', 8443)]"

definition ex_port_https :: svc_port where
  "ex_port_https = \<lparr> sp_targetPort = Some (JInt 8443), sp_name = Some (JStr ''https''),
                     sp_port = None \<rparr>"

definition ex_port_443 :: svc_port where
  "ex_port_443 = \<lparr> sp_targetPort = None, sp_name = None, sp_port = Some (JInt 443) \<rparr>"

definition ex_address_node :: address where
  "ex_address_node = \<lparr> ad_ip = None, ad_nodeName = Some ''node-1'', ad_targetRef = None \<rparr>"

definition ex_address_none :: address where
  "ex_address_none = \<lparr> ad_ip = None, ad_nodeName = None, ad_targetRef = None \<rparr>"

definition ex_ep_port_80 :: ep_port where
  "ex_ep_port_80 = \<lparr> pt_name = None, pt_port = Some 80, pt_protocol = None \<rparr>"

definition ex_subset_node :: subset where
  "ex_subset_node = \<lparr> ss_addresses = [ex_address_node], ss_ports = [ex_ep_port_80] \<rparr>"

definition ex_subset_none :: subset where
  "ex_subset_none = \<lparr> ss_addresses = [ex_address_none], ss_ports = [ex_ep_port_80] \<rparr>"

definition ex_ep_port_http :: ep_port where
  "ex_ep_port_http = \<lparr> pt_name = Some ''http'', pt_port = Some 8080, pt_protocol = Some ''tcp'' \<rparr>"

definition ex_ep_port_udp :: ep_port where
  "ex_ep_port_udp = \<lparr> pt_name = Some ''dns'', pt_port = Some 53, pt_protocol = Some ''UDP'' \<rparr>"

definition ex_address_ip :: address where
  "ex_address_ip = \<lparr> ad_ip = Some ''10.0.0.1'', ad_nodeName = None, ad_targetRef = None \<rparr>"

definition ex_subset_http :: subset where
  "ex_subset_http = \<lparr> ss_addresses = [ex_address_ip], ss_ports = [ex_ep_port_udp, ex_ep_port_http] \<rparr>"

definition ex_ep_port_8080 :: ep_port where
  "ex_ep_port_8080 = \<lparr> pt_name = Some ''8080'', pt_port = Some 8080, pt_protocol = None \<rparr>"

definition ex_subset_8080 :: subset where
  "ex_subset_8080 = \<lparr> ss_addresses = [ex_address_ip], ss_ports = [ex_ep_port_8080] \<rparr>"

definition ex_env :: "string env" where
  "ex_env = \<lparr> cfg = ex_cfg,
               dump_yaml = (\<lambda>ob. ''''),
               parse_yaml = (\<lambda>serialization. None),
               from_dict = (\<lambda>rkey location serialization ob. Inr rkey),
               good_ambassador_id = (\<lambda>ob. True) \<rparr>"

definition ex_service_noname :: app_obj where
  "ex_service_noname = \<lparr> o_kind = Some ''Service'', o_name = None, o_source = None,
                         o_fields = [] \<rparr>"

definition ex_mapping :: app_obj where
  "ex_mapping = \<lparr> o_kind = Some ''Mapping'', o_name = Some ''m'', o_source = None,
                  o_fields = [(''prefix'', PStr ''/m/''), (''service'', PStr ''svc'')] \<rparr>"

definition ex_consul_ok :: consul_ep where
  "ex_consul_ok = \<lparr> ce_ID = Some ''a'', ce_Address = Some ''10.0.0.1'', ce_Port = Some 9000 \<rparr>"

definition ex_consul_bare :: consul_ep where
  "ex_consul_bare = \<lparr> ce_ID = None, ce_Address = None, ce_Port = Some 9000 \<rparr>"

definition ex_consul_object :: consul_object where
  "ex_consul_object = \<lparr> co_Endpoints = [ex_consul_ok, ex_consul_bare],
                        co_Service = Some ''web'', co_Id = Some ''dc2'' \<rparr>"

definition ex_state :: "string fetcher" where
  "ex_state = init\<lparr> k8s_endpoints := [(''svc.default'', ex_ep_single)],
                    k8s_services := [(''svc.default'', ex_svc_web)] \<rparr>"

definition ex_resolved :: app_obj where
  "ex_resolved = k8s_service ex_cfg ex_svc_web
                   [(PInt 80, PList [endpoint_of (JInt 8080) ''10.0.0.1''])]"








section \<open>Properties of the port rule\<close>

lemma not_isdigit_name: "\<not> isdigit ''name''"
  by (simp add: isdigit_def is_digit_char_def)

lemma isdigit_not_name: "isdigit (py_str v) \<Longrightarrow> v \<noteq> JStr ''name''"
  using not_isdigit_name by auto

lemma tried_of_Nil [simp]: "tried_of p [] = []"
  by (simp add: tried_of_def List.map_filter_simps)

lemma tried_of_Cons:
  "tried_of p (a # as) =
     (case port_get p a of None \<Rightarrow> tried_of p as
      | Some v \<Rightarrow> if truthy v then v # tried_of p as else tried_of p as)"
  by (simp add: tried_of_def List.map_filter_simps split: option.splits)

lemma not_truthy_int_hit:
  "\<not> truthy_int (dict_get eps (py_str v)) \<Longrightarrow> spec_hit eps v = None"
  by (cases "dict_get eps (py_str v)") (auto simp: spec_hit_def)

text \<open>
  The scan computes the rule. The invariant of the loop: no hit so far, and a
  remembered candidate is true in Python's sense, so it is never replaced.
\<close>

lemma scan_attrs_target:
  "\<not> truthy_int kt \<Longrightarrow> fb = None \<or> truthy_opt fb \<Longrightarrow>
   target_after (scan_attrs eps p attrs (fk, fb, kt)) src = spec_pick eps (tried_of p attrs) fb src"
proof (induction attrs arbitrary: fk fb kt)
  case Nil
  then show ?case
    by (cases fb)
      (auto simp: target_after_def spec_pick_def fallback_or_def List.map_filter_simps)
next
  case (Cons a attrs)
  show ?case
  proof (cases "port_get p a")
    case None
    with Cons show ?thesis by (simp add: tried_of_Cons)
  next
    case (Some v)
    show ?thesis
    proof (cases "truthy v")
      case False
      with Some Cons show ?thesis by (simp add: tried_of_Cons)
    next
      case True
      define fb' where
        "fb' = (if \<not> truthy_opt fb \<and> v \<noteq> JStr ''name'' \<and> isdigit (py_str v)
                then Some v else fb)"
      have fb'_ok: "fb' = None \<or> truthy_opt fb'"
        using Cons.prems(2) True by (auto simp: fb'_def)
      show ?thesis
      proof (cases "truthy_int (dict_get eps (py_str v))")
        case hit: True
        then obtain t where t: "dict_get eps (py_str v) = Some t" "t \<noteq> 0"
          by (cases "dict_get eps (py_str v)") auto
        with Some True show ?thesis
          by (simp add: tried_of_Cons target_after_def spec_pick_def
                List.map_filter_simps spec_hit_def)
      next
        case miss: False
        have step: "scan_attrs eps p (a # attrs) (fk, fb, kt) =
                    scan_attrs eps p attrs (True, fb', dict_get eps (py_str v))"
          using Some True miss by (simp add: fb'_def Let_def)
        have ih: "target_after (scan_attrs eps p attrs (True, fb', dict_get eps (py_str v))) src
                  = spec_pick eps (tried_of p attrs) fb' src"
          using Cons.IH[OF miss fb'_ok] .
        have pick: "spec_pick eps (v # tried_of p attrs) fb src
                    = spec_pick eps (tried_of p attrs) fb' src"
          using Cons.prems(2) True isdigit_not_name[of v]
          by (cases fb)
            (auto simp: spec_pick_def List.map_filter_simps not_truthy_int_hit[OF miss]
                  fb'_def split: list.splits option.splits)
        show ?thesis using Some True step ih pick by (simp add: tried_of_Cons)
      qed
    qed
  qed
qed

lemma scan_attrs_found:
  "fst (scan_attrs eps p attrs (fk, fb, kt)) = (fk \<or> tried_of p attrs \<noteq> [])"
proof (induction attrs arbitrary: fk fb kt)
  case Nil
  then show ?case by simp
next
  case (Cons a attrs)
  then show ?case
    by (auto simp: tried_of_Cons Let_def split: option.splits)
qed

lemma tried_port:
  "truthy_opt (sp_port p) \<Longrightarrow> tried_of p [''targetPort'', ''name'', ''port''] \<noteq> []"
  by (cases "sp_port p") (auto simp: tried_of_Cons port_get_def split: option.splits)

lemma resolve_port_multi:
  assumes "length eps \<noteq> 1" "truthy_opt (sp_port port)"
  shows "resolve_port key eps idx port (tp, log) =
           (dict_set (the (sp_port port)) (spec_resolve eps port) tp, log)"
proof -
  obtain fk fb kt where sc:
    "scan_attrs eps port [''targetPort'', ''name'', ''port''] (False, None, None) = (fk, fb, kt)"
    by (cases "scan_attrs eps port [''targetPort'', ''name'', ''port''] (False, None, None)") auto
  have "fk"
    using scan_attrs_found[of eps port "[''targetPort'', ''name'', ''port'']" False None None]
      tried_port[OF assms(2)] sc by simp
  moreover have "target_after (fk, fb, kt) (the (sp_port port)) = spec_resolve eps port"
    using scan_attrs_target[of None None eps port "[''targetPort'', ''name'', ''port'']" False
        "the (sp_port port)"] sc
    by (simp add: spec_resolve_def)
  ultimately show ?thesis
    using assms sc by (simp add: resolve_port_def target_after_def)
qed

lemma resolve_port_single:
  assumes "truthy_opt (sp_port port)"
  shows "resolve_port key [(k, t)] idx port (tp, log) =
           (dict_set (the (sp_port port)) (JInt t) tp, log)"
  using assms by (simp add: resolve_port_def)

lemma resolve_port_skip:
  assumes "\<not> truthy_opt (sp_port port)"
  shows "resolve_port key eps idx port (tp, log) = (tp, log @ [NoPortNumber key idx])"
  using assms by (simp add: resolve_port_def)

section \<open>One endpoint port\<close>

lemma resolve_ports_single_get:
  "dict_get (fst (resolve_ports key [(k, t)] idx ports (tp, log))) src =
     (if \<exists>p \<in> set ports. truthy_opt (sp_port p) \<and> the (sp_port p) = src
      then Some (JInt t) else dict_get tp src)"
proof (induction ports arbitrary: tp log idx)
  case Nil
  then show ?case by simp
next
  case (Cons p ports)
  show ?case
  proof (cases "truthy_opt (sp_port p)")
    case True
    then show ?thesis
      using Cons.IH[of "idx + 1" "dict_set (the (sp_port p)) (JInt t) tp" log]
      by (auto simp: resolve_port_single update_conv')
  next
    case False
    then show ?thesis
      using Cons.IH[of "idx + 1" tp "log @ [NoPortNumber key idx]"]
      by (auto simp: resolve_port_skip)
  qed
qed

lemma set_update_subset: "set (AList.update k v al) \<subseteq> insert (k, v) (set al)"
  by (induction al) auto

lemma resolve_ports_single_values:
  "snd ` set (fst (resolve_ports key [(k, t)] idx ports (tp, log)))
     \<subseteq> insert (JInt t) (snd ` set tp)"
proof (induction ports arbitrary: tp log idx)
  case Nil
  then show ?case by auto
next
  case (Cons p ports)
  show ?case
  proof (cases "truthy_opt (sp_port p)")
    case True
    have "snd ` set (dict_set (the (sp_port p)) (JInt t) tp) \<subseteq> insert (JInt t) (snd ` set tp)"
      using set_update_subset[of "the (sp_port p)" "JInt t" tp] by force
    moreover have "resolve_ports key [(k, t)] idx (p # ports) (tp, log) =
        resolve_ports key [(k, t)] (idx + 1) ports (dict_set (the (sp_port p)) (JInt t) tp, log)"
      using True by (simp add: resolve_port_single)
    ultimately show ?thesis
      using Cons.IH[of "idx + 1" "dict_set (the (sp_port p)) (JInt t) tp" log]
      by (simp only:) blast
  next
    case False
    then show ?thesis
      using Cons.IH[of "idx + 1" tp "log @ [NoPortNumber key idx]"]
      by (auto simp: resolve_port_skip)
  qed
qed

lemma resolve_port_distinct:
  "distinct (map fst tp) \<Longrightarrow> distinct (map fst (fst (resolve_port key eps idx p (tp, log))))"
  by (auto simp: resolve_port_def Let_def distinct_update split: prod.splits)

lemma resolve_ports_distinct:
  "distinct (map fst (fst acc)) \<Longrightarrow>
   distinct (map fst (fst (resolve_ports key eps idx ports acc)))"
proof (induction ports arbitrary: acc idx)
  case Nil
  then show ?case by simp
next
  case (Cons p ports)
  obtain tp log where acc: "acc = (tp, log)" by (cases acc)
  show ?case
    using Cons.IH[of "resolve_port key eps idx p acc" "idx + 1"] Cons.prems
      resolve_port_distinct[of tp key eps idx p log] acc by simp
qed

lemma pv_inj: "pv a = pv b \<Longrightarrow> a = b"
  by (cases a; cases b) auto

lemma build_endpoints_get:
  "distinct (map fst tp) \<Longrightarrow>
   dict_get (build_endpoints addrs tp acc) (pv s) =
     (case dict_get tp s of
        Some v \<Rightarrow> Some (PList (map (endpoint_of v) addrs))
      | None \<Rightarrow> dict_get acc (pv s))"
proof (induction tp arbitrary: acc)
  case Nil
  then show ?case by simp
next
  case (Cons a tp)
  obtain s0 t0 where a: "a = (s0, t0)" by (cases a)
  show ?case
  proof (cases "s = s0")
    case True
    with Cons a have "dict_get tp s = None"
      by (auto simp: map_of_eq_None_iff)
    with Cons a True show ?thesis by (simp add: update_conv')
  next
    case False
    then have "pv s \<noteq> pv s0" using pv_inj by blast
    with Cons a False show ?thesis by (simp add: update_conv' split: option.splits)
  qed
qed

lemma svc_endpoints_of_k8s_service [simp]: "svc_endpoints_of (k8s_service cf svc e) = e"
  by (simp add: svc_endpoints_of_def k8s_service_def)

text \<open>
  Claim C1, as amended. When the endpoint entry of a service has a port map with exactly
  one entry \<open>(k, t)\<close>, every service port spec that carries a port which is true in
  Python's sense (present, not \<open>0\<close>, not empty) resolves to \<open>t\<close>, whatever its name,
  its \<open>targetPort\<close> and the value of the port: \<open>target_ports\<close> maps its port to
  \<open>t\<close>, \<open>target_ports\<close> holds no other target, and the emitted Service resource
  lists, under that port, every target address with port \<open>t\<close>.
\<close>

theorem single_port_resolution:
  assumes "dict_get eptab key = Some ep" and "ep_ports ep = [(k, t)]"
    and "port \<in> set (svc_ports k8s_svc)" and "truthy_opt (sp_port port)"
  shows "dict_get (fst (resolve_targets key k8s_svc (Some ep))) (the (sp_port port)) = Some (JInt t)
       \<and> snd ` set (fst (resolve_targets key k8s_svc (Some ep))) \<subseteq> {JInt t}
       \<and> dict_get (svc_endpoints_of (fst (resolve_service cf eptab key k8s_svc)))
           (pv (the (sp_port port)))
         = Some (PList (map (endpoint_of (JInt t))
                  (final_addrs key (collect_ips (ep_addresses ep)))))"
proof -
  obtain tp log where rp: "resolve_ports key [(k, t)] 0 (svc_ports k8s_svc) ([], []) = (tp, log)"
    by (cases "resolve_ports key [(k, t)] 0 (svc_ports k8s_svc) ([], [])") auto
  have rt: "resolve_targets key k8s_svc (Some ep) =
          (tp, collect_ips (ep_addresses ep), (if tp = [] then log @ [NoRoutablePorts key] else log))"
    using assms(2) rp by (simp add: resolve_targets_def)
  have g: "dict_get tp (the (sp_port port)) = Some (JInt t)"
    using resolve_ports_single_get[of key k t 0 "svc_ports k8s_svc" "[]" "[]" "the (sp_port port)"]
      assms(3,4) rp by auto
  have v: "snd ` set tp \<subseteq> {JInt t}"
    using resolve_ports_single_values[of key k t 0 "svc_ports k8s_svc" "[]" "[]"] rp by simp
  have d: "distinct (map fst tp)"
    using resolve_ports_distinct[of "([], [])" key "[(k, t)]" 0 "svc_ports k8s_svc"] rp by simp
  have e: "dict_get (svc_endpoints_of (fst (resolve_service cf eptab key k8s_svc)))
           (pv (the (sp_port port)))
         = Some (PList (map (endpoint_of (JInt t))
                  (final_addrs key (collect_ips (ep_addresses ep)))))"
    using assms(1) rt g build_endpoints_get[OF d, of "final_addrs key (collect_ips (ep_addresses ep))" "[]" "the (sp_port port)"]
    by (simp add: resolve_service_def)
  show ?thesis using rt g v e by simp
qed

theorem single_port_resolution_witness:
  "dict_get [(''svc.default'', ex_ep_single)] ''svc.default'' = Some ex_ep_single
   \<and> ep_ports ex_ep_single = [(''8080'', 8080)]
   \<and> ex_port_web \<in> set (svc_ports ex_svc_web)
   \<and> truthy_opt (sp_port ex_port_web)
   \<and> dict_get (fst (resolve_targets ''svc.default'' ex_svc_web (Some ex_ep_single))) (JInt 80)
       = Some (JInt 8080)
   \<and> dict_get (svc_endpoints_of (fst (resolve_service ex_cfg [(''svc.default'', ex_ep_single)]
                  ''svc.default'' ex_svc_web))) (PInt 80)
       = Some (PList [endpoint_of (JInt 8080) ''10.0.0.1''])"
proof -
  have h1: "dict_get [(''svc.default'', ex_ep_single)] ''svc.default'' = Some ex_ep_single"
    by simp
  have h2: "ep_ports ex_ep_single = [(''8080'', 8080)]"
    by (simp add: ex_ep_single_def)
  have h3: "ex_port_web \<in> set (svc_ports ex_svc_web)"
    by (simp add: ex_svc_web_def)
  have h4: "truthy_opt (sp_port ex_port_web)"
    by (simp add: ex_port_web_def)
  have p: "the (sp_port ex_port_web) = JInt 80"
    by (simp add: ex_port_web_def)
  have a: "final_addrs ''svc.default'' (collect_ips (ep_addresses ex_ep_single)) = [''10.0.0.1'']"
    by (simp add: final_addrs_def ex_ep_single_def ex_addr_def)
  show ?thesis
    using single_port_resolution[OF h1 h2 h3 h4, where cf = ex_cfg] h1 h2 h3 h4
    by (simp add: p a)
qed

text \<open>
  Claim C1 as it is stated fails for a port spec without a \<open>port\<close>: with the one-entry
  port map \<open>{'8080': 8080}\<close> the spec \<open>{targetPort: 8080, name: 'http'}\<close> is skipped
  at line 719, nothing is resolved and the emitted resource has no endpoints.
\<close>

theorem single_port_unresolved_counterexample:
  "ep_ports ex_ep_single = [(''8080'', 8080)]
   \<and> ex_port_noport \<in> set (svc_ports ex_svc_noport)
   \<and> fst (resolve_targets ''svc.default'' ex_svc_noport (Some ex_ep_single)) = []
   \<and> svc_endpoints_of (fst (resolve_service ex_cfg [(''svc.default'', ex_ep_single)]
         ''svc.default'' ex_svc_noport)) = []"
  by (simp add: ex_ep_single_def ex_svc_noport_def ex_port_noport_def resolve_targets_def
      resolve_port_def resolve_service_def)

section \<open>Several endpoint ports\<close>

text \<open>
  Claim C2, as amended. When the endpoint port map does not have exactly one entry, a
  service port spec that carries a port which is true in Python's sense is resolved by
  the rule \<open>spec_resolve\<close>: the values of \<open>targetPort\<close>, \<open>name\<close> and \<open>port\<close>
  that are present and true are tried in that order as string keys, the first lookup
  that gives a port other than \<open>0\<close> is the target; when none does, the target is the
  first of the tried values that is digit-only, or else the source port.
\<close>

theorem multi_port_resolution:
  assumes "length k8s_ep_ports \<noteq> 1" and "truthy_opt (sp_port port)"
  shows "resolve_port key k8s_ep_ports idx port (target_ports, log) =
           (dict_set (the (sp_port port)) (spec_resolve k8s_ep_ports port) target_ports, log)"
  using assms by (rule resolve_port_multi)

theorem multi_port_resolution_witness:
  "length ex_ports_http \<noteq> 1 \<and> truthy_opt (sp_port ex_port_a)
   \<and> spec_resolve ex_ports_http ex_port_a = JInt 8080
   \<and> resolve_port ''svc.default'' ex_ports_http 0 ex_port_a ([], [])
       = ([(JInt 80, JInt 8080)], [])"
proof -
  have h1: "length ex_ports_http \<noteq> 1" by (simp add: ex_ports_http_def)
  have h2: "truthy_opt (sp_port ex_port_a)" by (simp add: ex_port_a_def)
  have r: "spec_resolve ex_ports_http ex_port_a = JInt 8080"
    by (simp add: spec_resolve_def spec_pick_def tried_of_Cons port_get_def ex_port_a_def
        ex_ports_http_def List.map_filter_simps spec_hit_def)
  have p: "the (sp_port ex_port_a) = JInt 80" by (simp add: ex_port_a_def)
  show ?thesis
    using multi_port_resolution[OF h1 h2, of "''svc.default''" 0 "[]" "[]"] h1 h2
    by (simp add: r p)
qed

text \<open>
  Claim C2 as it is stated fails for a port spec without a \<open>port\<close>: the lookup of its
  \<open>targetPort\<close> would hit \<open>8080\<close>, but the spec is skipped before any lookup.
\<close>

theorem multi_port_unresolved_counterexample:
  "length ex_ports_http \<noteq> 1
   \<and> spec_hit ex_ports_http (JStr ''http'') = Some 8080
   \<and> sp_targetPort ex_port_target_only = Some (JStr ''http'')
   \<and> resolve_port ''svc.default'' ex_ports_http 0 ex_port_target_only ([], [])
       = ([], [NoPortNumber ''svc.default'' 0])"
  by (simp add: ex_ports_http_def ex_port_target_only_def spec_hit_def resolve_port_def)

section \<open>Skipped port specs\<close>

text \<open>
  Claim C6, as amended. A service port spec is skipped, with the error "no port number"
  logged and \<open>target_ports\<close> unchanged, exactly when its \<open>port\<close> is absent or false
  in Python's sense; a spec whose \<open>port\<close> is true always adds its port to
  \<open>target_ports\<close> and logs nothing. The \<open>targetPort\<close> and the \<open>name\<close> play no
  part.
\<close>

theorem port_skipped_iff:
  "(\<not> truthy_opt (sp_port port) \<longrightarrow>
      resolve_port key k8s_ep_ports idx port (target_ports, log)
        = (target_ports, log @ [NoPortNumber key idx]))
   \<and> (truthy_opt (sp_port port) \<longrightarrow>
      (\<exists>target. resolve_port key k8s_ep_ports idx port (target_ports, log)
                 = (dict_set (the (sp_port port)) target target_ports, log)))"
proof (cases "length k8s_ep_ports = 1")
  case True
  then obtain k t where "k8s_ep_ports = [(k, t)]"
    by (cases k8s_ep_ports) auto
  then show ?thesis by (auto simp: resolve_port_single resolve_port_skip)
next
  case False
  then show ?thesis by (auto simp: resolve_port_multi resolve_port_skip)
qed

theorem port_skipped_iff_witness:
  "\<not> truthy_opt (sp_port ex_port_https)
   \<and> resolve_port ''svc.default'' ex_ports_https 0 ex_port_https ([], [])
       = ([], [NoPortNumber ''svc.default'' 0])
   \<and> truthy_opt (sp_port ex_port_443)
   \<and> (\<exists>target. resolve_port ''svc.default'' ex_ports_https 0 ex_port_443 ([], [])
                 = ([(JInt 443, target)], []))"
proof -
  have h1: "\<not> truthy_opt (sp_port ex_port_https)" by (simp add: ex_port_https_def)
  have h2: "truthy_opt (sp_port ex_port_443)" by (simp add: ex_port_443_def)
  have p: "the (sp_port ex_port_443) = JInt 443" by (simp add: ex_port_443_def)
  show ?thesis
    using port_skipped_iff[of ex_port_https "''svc.default''" ex_ports_https 0 "[]" "[]"]
      port_skipped_iff[of ex_port_443 "''svc.default''" ex_ports_https 0 "[]" "[]"] h1 h2
    by (simp add: p)
qed

text \<open>
  Claim C6 as it is stated fails: a port spec that carries a \<open>targetPort\<close> and a
  \<open>name\<close> but no \<open>port\<close> is skipped.
\<close>

theorem port_with_attributes_skipped_counterexample:
  "sp_targetPort ex_port_https = Some (JInt 8443)
   \<and> sp_name ex_port_https = Some (JStr ''https'')
   \<and> resolve_port ''svc.default'' ex_ports_https 0 ex_port_https ([], [])
       = ([], [NoPortNumber ''svc.default'' 0])"
  by (simp add: ex_port_https_def resolve_port_def)

section \<open>No endpoints: service-name routing\<close>

text \<open>
  Claim C3, as amended. For a service side-table entry with no endpoint entry under its
  key, or with one whose port map is empty, the finalizer resolves no target port and
  no target address and logs nothing; its list of target addresses becomes the
  one-element list \<open>[key]\<close> (line 793), but as there is no target port the emitted
  Service resource has an empty \<open>endpoints\<close> map: the identifier is in no address
  list of the resource.
\<close>

theorem no_endpoints_service_routing:
  assumes "dict_get eptab key = None \<or> (\<exists>ep. dict_get eptab key = Some ep \<and> ep_ports ep = [])"
  shows "resolve_targets key k8s_svc (dict_get eptab key) = ([], [], [])
       \<and> final_addrs key (fst (snd (resolve_targets key k8s_svc (dict_get eptab key)))) = [key]
       \<and> resolve_service cf eptab key k8s_svc = (k8s_service cf k8s_svc [], [])
       \<and> svc_endpoints_of (fst (resolve_service cf eptab key k8s_svc)) = []
       \<and> service_addresses (fst (resolve_service cf eptab key k8s_svc)) = []"
proof -
  have rt: "resolve_targets key k8s_svc (dict_get eptab key) = ([], [], [])"
    using assms by (auto simp: resolve_targets_def)
  then show ?thesis
    by (simp add: resolve_service_def final_addrs_def service_addresses_def
        svc_endpoints_of_def k8s_service_def)
qed

theorem no_endpoints_service_routing_witness:
  "(dict_get ([] :: (string \<times> k8s_ep) list) ''svc.default'' = None
     \<or> (\<exists>ep. dict_get [] ''svc.default'' = Some ep \<and> ep_ports ep = []))
   \<and> resolve_service ex_cfg [] ''svc.default'' ex_svc_web = (k8s_service ex_cfg ex_svc_web [], [])"
proof -
  have h: "dict_get ([] :: (string \<times> k8s_ep) list) ''svc.default'' = None
     \<or> (\<exists>ep. dict_get [] ''svc.default'' = Some ep \<and> ep_ports ep = [])"
    by simp
  show ?thesis
    using no_endpoints_service_routing[OF h, of ex_svc_web ex_cfg] by simp
qed

text \<open>
  Claim C3 as it is stated fails: for a service with one port and no endpoint entry the
  emitted resource has no endpoints, so its addresses are not \<open>['svc.default']\<close>.
\<close>

theorem no_endpoints_address_list_counterexample:
  "dict_get ([] :: (string \<times> k8s_ep) list) ''svc.default'' = None
   \<and> svc_endpoints_of (fst (resolve_service ex_cfg [] ''svc.default'' ex_svc_web)) = []
   \<and> service_addresses (fst (resolve_service ex_cfg [] ''svc.default'' ex_svc_web))
       \<noteq> [PStr ''svc.default'']"
  by (simp add: resolve_service_def resolve_targets_def final_addrs_def service_addresses_def
      svc_endpoints_of_def k8s_service_def)


section \<open>The Endpoints decoder\<close>

lemma str_int_80: "str_int 80 = ''80''"
  by (simp add: str_int_def dec.simps digit_char_def)

lemma str_int_8080: "str_int 8080 = ''8080''"
  by (simp add: str_int_def dec.simps digit_char_def)

lemma str_int_9999: "str_int 9999 = ''9999''"
  by (simp add: str_int_def dec.simps digit_char_def)

lemma upper_TCP: "upper ''TCP'' = ''TCP''"
  by (simp add: upper_def upper_char_def)

lemma collect_addresses_filter:
  "collect_addresses addresses = filter (\<lambda>a. addr_len a > 0) (map stored_addr addresses)"
  by (induction addresses) auto

lemma addr_len_pos:
  "(addr_len (stored_addr a) > 0) =
     (ad_ip a \<noteq> None \<or> ad_nodeName a \<noteq> None
      \<or> (\<exists>r. ad_targetRef a = Some r
            \<and> (tr_kind r \<noteq> None \<or> tr_name r \<noteq> None \<or> tr_namespace r \<noteq> None)))"
  by (cases "ad_targetRef a") (auto simp: addr_len_def stored_addr_def)

lemma handle_subsets_skip:
  "collect_addresses (ss_addresses sset) = [] \<Longrightarrow>
   handle_subsets n ns (sset # rest) tbl = handle_subsets n ns rest tbl"
  by simp

text \<open>
  Claim C4, as amended. From every subset the Endpoints decoder collects the addresses
  that carry at least one of \<open>ip\<close>, \<open>nodeName\<close> and the \<open>kind\<close>, \<open>name\<close> or
  \<open>namespace\<close> of a \<open>targetRef\<close> (those for which the dictionary built from them
  is not empty), an IP or not; a subset from which no address is collected is skipped
  entirely, so that it writes no side-table entry.
\<close>

theorem addresses_collected:
  "collect_addresses addresses = filter (\<lambda>a. addr_len a > 0) (map stored_addr addresses)
   \<and> (addr_len (stored_addr a) > 0) =
       (ad_ip a \<noteq> None \<or> ad_nodeName a \<noteq> None
        \<or> (\<exists>r. ad_targetRef a = Some r
              \<and> (tr_kind r \<noteq> None \<or> tr_name r \<noteq> None \<or> tr_namespace r \<noteq> None)))
   \<and> (collect_addresses (ss_addresses sset) = [] \<longrightarrow>
        handle_subsets resource_name resource_namespace (sset # rest) tbl
          = handle_subsets resource_name resource_namespace rest tbl)"
  using collect_addresses_filter addr_len_pos handle_subsets_skip by blast

theorem addresses_collected_witness:
  "collect_addresses (ss_addresses ex_subset_none) = []
   \<and> handle_subsets ''svc'' ''default'' [ex_subset_none] [] = []"
proof -
  have h: "collect_addresses (ss_addresses ex_subset_none) = []"
    by (simp add: ex_subset_none_def ex_address_none_def addr_len_def stored_addr_def)
  show ?thesis
    using addresses_collected[of "[]" ex_address_none ex_subset_none "''svc''" "''default''" "[]" "[]"] h
    by simp
qed

text \<open>
  Claim C4 as it is stated fails: an address with a node name and no IP is collected, and
  its subset writes a side-table entry.
\<close>

theorem address_without_ip_counterexample:
  "ad_ip ex_address_node = None
   \<and> collect_addresses (ss_addresses ex_subset_node) = [stored_addr ex_address_node]
   \<and> a_ip (stored_addr ex_address_node) = None
   \<and> handle_subsets ''svc'' ''default'' [ex_subset_node] []
       = [(''svc.default'',
           \<lparr> ep_name = ''svc'', ep_namespace = ''default'',
             ep_addresses = [stored_addr ex_address_node], ep_ports = [(''80'', 80)] \<rparr>)]"
  by (simp add: ex_subset_node_def ex_address_node_def addr_len_def stored_addr_def
      ex_ep_port_80_def upper_TCP str_int_80 resource_identifier_def)

lemma build_port_dict_filter:
  "build_port_dict ports pd = build_port_dict (filter is_tcp ports) pd"
  by (induction ports arbitrary: pd) (auto simp: is_tcp_def split: option.splits)

lemma build_port_dict_named:
  assumes "is_tcp pt" "pt_port pt = Some n" "pt_name pt = Some nm" "nm \<noteq> []" "nm \<noteq> str_int n"
  shows "build_port_dict [pt] [] = [(str_int n, n), (nm, n)]"
  using assms by (auto simp: is_tcp_def)

lemma tried_port_mem:
  "truthy_opt (sp_port p) \<Longrightarrow> the (sp_port p) \<in> set (tried_of p [''targetPort'', ''name'', ''port''])"
  by (cases "sp_port p") (auto simp: tried_of_Cons port_get_def split: option.splits)

lemma own_value_mem:
  "truthy_opt (sp_port p) \<Longrightarrow> own_value p \<in> set (tried_of p [''targetPort'', ''name'', ''port''])"
  using tried_port_mem[of p]
  by (auto simp: own_value_def split: option.splits dest: find_Some_iff[THEN iffD1] )

lemma map_filter_hit_Nil:
  "\<forall>v \<in> set vs. spec_hit eps v = None \<Longrightarrow> List.map_filter (spec_hit eps) vs = []"
  by (induction vs) (auto simp: List.map_filter_simps)

lemma spec_resolve_all_miss:
  assumes "\<forall>v \<in> set (tried_of p [''targetPort'', ''name'', ''port'']). dict_get eps (py_str v) = None"
  shows "spec_resolve eps p = own_value p"
proof -
  have "\<forall>v \<in> set (tried_of p [''targetPort'', ''name'', ''port'']). spec_hit eps v = None"
    using assms by (simp add: spec_hit_def)
  then show ?thesis
    by (simp add: spec_resolve_def spec_pick_def own_value_def map_filter_hit_Nil)
qed

text \<open>
  Claim C10, as amended. For a subset whose only TCP port has the number \<open>n\<close> and a
  name that is not empty and is not the decimal string of \<open>n\<close>, the port map has the
  two entries \<open>str(n)\<close> and the name, both with target \<open>n\<close>, and that is what is
  stored when the subset has a collected address. Against this map a service port spec
  that carries a port which is true in Python's sense, and none of whose tried values
  is the name or the number as a string, resolves to \<open>own_value\<close>: its first
  digit-only value, or else its source port; this is one of its own values and is not
  \<open>n\<close>.
\<close>

theorem named_port_two_entries:
  assumes "filter is_tcp (ss_ports sset) = [pt]" and "pt_port pt = Some n"
    and "pt_name pt = Some nm" and "nm \<noteq> []" and "nm \<noteq> str_int n"
  shows "build_port_dict (ss_ports sset) [] = [(str_int n, n), (nm, n)]
       \<and> (collect_addresses (ss_addresses sset) \<noteq> [] \<longrightarrow>
            handle_subsets resource_name resource_namespace [sset] tbl =
              dict_set (resource_identifier resource_name resource_namespace)
                \<lparr> ep_name = resource_name, ep_namespace = resource_namespace,
                  ep_addresses = collect_addresses (ss_addresses sset),
                  ep_ports = [(str_int n, n), (nm, n)] \<rparr> tbl)
       \<and> (truthy_opt (sp_port port)
            \<and> (\<forall>v \<in> set (tried_of port [''targetPort'', ''name'', ''port'']).
                  py_str v \<noteq> str_int n \<and> py_str v \<noteq> nm) \<longrightarrow>
            resolve_port key [(str_int n, n), (nm, n)] idx port (target_ports, log)
              = (dict_set (the (sp_port port)) (own_value port) target_ports, log)
            \<and> own_value port \<in> set (tried_of port [''targetPort'', ''name'', ''port''])
            \<and> own_value port \<noteq> JInt n)"
proof -
  have tcp: "is_tcp pt"
    using assms(1) by (metis filter_eq_ConsD)
  have pd: "build_port_dict (ss_ports sset) [] = [(str_int n, n), (nm, n)]"
    using build_port_dict_filter[of "ss_ports sset" "[]"] assms
      build_port_dict_named[OF tcp assms(2-5)] by simp
  have st: "collect_addresses (ss_addresses sset) \<noteq> [] \<longrightarrow>
            handle_subsets resource_name resource_namespace [sset] tbl =
              dict_set (resource_identifier resource_name resource_namespace)
                \<lparr> ep_name = resource_name, ep_namespace = resource_namespace,
                  ep_addresses = collect_addresses (ss_addresses sset),
                  ep_ports = [(str_int n, n), (nm, n)] \<rparr> tbl"
    using pd by (simp add: Let_def)
  have rs: "resolve_port key [(str_int n, n), (nm, n)] idx port (target_ports, log)
              = (dict_set (the (sp_port port)) (own_value port) target_ports, log)
            \<and> own_value port \<in> set (tried_of port [''targetPort'', ''name'', ''port''])
            \<and> own_value port \<noteq> JInt n"
    if t: "truthy_opt (sp_port port)"
      and m: "\<forall>v \<in> set (tried_of port [''targetPort'', ''name'', ''port'']).
                  py_str v \<noteq> str_int n \<and> py_str v \<noteq> nm"
  proof -
    have miss: "\<forall>v \<in> set (tried_of port [''targetPort'', ''name'', ''port'']).
                 dict_get [(str_int n, n), (nm, n)] (py_str v) = None"
      using m by auto
    have mem: "own_value port \<in> set (tried_of port [''targetPort'', ''name'', ''port''])"
      using own_value_mem[OF t] .
    then have ne: "own_value port \<noteq> JInt n"
      using m by auto
    have "resolve_port key [(str_int n, n), (nm, n)] idx port (target_ports, log)
            = (dict_set (the (sp_port port)) (spec_resolve [(str_int n, n), (nm, n)] port)
                 target_ports, log)"
      using resolve_port_multi[of "[(str_int n, n), (nm, n)]" port key idx target_ports log] t
      by simp
    then show ?thesis using spec_resolve_all_miss[OF miss] mem ne by simp
  qed
  show ?thesis using pd st rs by blast
qed

lemma is_tcp_examples:
  "is_tcp ex_ep_port_http" "\<not> is_tcp ex_ep_port_udp" "is_tcp ex_ep_port_8080"
  by (simp_all add: is_tcp_def ex_ep_port_http_def ex_ep_port_udp_def ex_ep_port_8080_def
      upper_def upper_char_def)

lemma tried_web: "tried_of ex_port_web [''targetPort'', ''name'', ''port'']
                  = [JInt 9999, JStr ''web'', JInt 80]"
  by (simp add: tried_of_Cons port_get_def ex_port_web_def)

theorem named_port_two_entries_witness:
  "filter is_tcp (ss_ports ex_subset_http) = [ex_ep_port_http]
   \<and> build_port_dict (ss_ports ex_subset_http) [] = [(''8080'', 8080), (''http'', 8080)]
   \<and> handle_subsets ''svc'' ''default'' [ex_subset_http] []
       = [(''svc.default'',
           \<lparr> ep_name = ''svc'', ep_namespace = ''default'',
             ep_addresses = collect_addresses (ss_addresses ex_subset_http),
             ep_ports = [(''8080'', 8080), (''http'', 8080)] \<rparr>)]
   \<and> truthy_opt (sp_port ex_port_web)
   \<and> resolve_port ''svc.default'' [(''8080'', 8080), (''http'', 8080)] 0 ex_port_web ([], [])
       = ([(JInt 80, JInt 9999)], [])"
proof -
  have h1: "filter is_tcp (ss_ports ex_subset_http) = [ex_ep_port_http]"
    using is_tcp_examples by (simp add: ex_subset_http_def)
  have h2: "pt_port ex_ep_port_http = Some 8080" by (simp add: ex_ep_port_http_def)
  have h3: "pt_name ex_ep_port_http = Some ''http''" by (simp add: ex_ep_port_http_def)
  have h4: "''http'' \<noteq> []" by simp
  have h5: "''http'' \<noteq> str_int 8080" by (simp add: str_int_8080)
  have a: "collect_addresses (ss_addresses ex_subset_http) \<noteq> []"
    by (simp add: ex_subset_http_def ex_address_ip_def addr_len_def stored_addr_def)
  have t: "truthy_opt (sp_port ex_port_web)" by (simp add: ex_port_web_def)
  have m: "\<forall>v \<in> set (tried_of ex_port_web [''targetPort'', ''name'', ''port'']).
             py_str v \<noteq> str_int 8080 \<and> py_str v \<noteq> ''http''"
    by (simp add: tried_web str_int_8080 str_int_9999 str_int_80)
  have o: "own_value ex_port_web = JInt 9999"
    by (simp add: own_value_def tried_web str_int_9999 isdigit_def is_digit_char_def)
  have p: "the (sp_port ex_port_web) = JInt 80" by (simp add: ex_port_web_def)
  show ?thesis
    using named_port_two_entries[OF h1 h2 h3 h4 h5, of "''svc''" "''default''" "[]" ex_port_web
        "''svc.default''" 0 "[]" "[]"] h1 a t m
    by (simp add: str_int_8080 o p resource_identifier_def)
qed

text \<open>
  Claim C10 as it is stated fails when the name of the port is the decimal string of its
  number: the two keys coincide, the port map has one entry, the shortcut applies and a
  port spec that matches nothing resolves to the target port of the endpoint. It also
  fails, against a map of two entries, for a port spec that has no \<open>port\<close>: the spec
  \<open>{targetPort: 9999}\<close> is skipped and resolves to nothing.
\<close>

theorem numeric_name_single_entry_counterexample:
  "filter is_tcp (ss_ports ex_subset_8080) = [ex_ep_port_8080]
   \<and> pt_name ex_ep_port_8080 = Some ''8080''
   \<and> build_port_dict (ss_ports ex_subset_8080) [] = [(''8080'', 8080)]
   \<and> tried_of ex_port_web [''targetPort'', ''name'', ''port''] = [JInt 9999, JStr ''web'', JInt 80]
   \<and> resolve_port ''svc.default'' [(''8080'', 8080)] 0 ex_port_web ([], [])
       = ([(JInt 80, JInt 8080)], [])
   \<and> resolve_port ''svc.default'' [(''8080'', 8080), (''http'', 8080)] 0 ex_port_9999_only
         ([], [])
       = ([], [NoPortNumber ''svc.default'' 0])"
proof -
  have f: "filter is_tcp (ss_ports ex_subset_8080) = [ex_ep_port_8080]"
    using is_tcp_examples(3) by (simp add: ex_subset_8080_def)
  have n: "pt_name ex_ep_port_8080 = Some ''8080''"
    by (simp add: ex_ep_port_8080_def)
  have b: "build_port_dict (ss_ports ex_subset_8080) [] = [(''8080'', 8080)]"
    using is_tcp_examples(3)
    by (simp add: ex_subset_8080_def is_tcp_def) (simp add: ex_ep_port_8080_def str_int_8080)
  have r: "resolve_port ''svc.default'' [(''8080'', 8080)] 0 ex_port_web ([], [])
       = ([(JInt 80, JInt 8080)], [])"
    by (simp add: resolve_port_def ex_port_web_def)
  have k: "resolve_port ''svc.default'' [(''8080'', 8080), (''http'', 8080)] 0 ex_port_9999_only
             ([], [])
           = ([], [NoPortNumber ''svc.default'' 0])"
    by (simp add: resolve_port_def ex_port_9999_only_def)
  show ?thesis using f n b r k tried_web by simp
qed

section \<open>Exceptions in a batch of application resources\<close>

lemma str_int_1: "str_int 1 = ''1''"
  by (simp add: str_int_def dec.simps digit_char_def)

lemma process_object_service_noname:
  assumes "good_ambassador_id env d" "o_kind d = Some ''Service''" "o_name d = None"
  shows "process_object env (Dict d) rkey s = Inl (KeyError ''name'', s)"
  using assms by (simp add: process_object_def Let_def)

text \<open>
  Claim C5 does not hold of the code. An application resource of kind \<open>Service\<close>
  without a \<open>name\<close> makes \<open>process_object\<close> raise \<open>KeyError\<close> at line 315;
  nothing catches it, so \<open>parse_object\<close> is left at once, with the location still
  pushed, and no later object of the batch is processed.
\<close>

theorem service_without_name_aborts_batch:
  assumes "good_ambassador_id env d" and "o_kind d = Some ''Service''" and "o_name d = None"
  shows "parse_object env (Dict d # rest) rkey fname s
           = Inl (KeyError ''name'', push_location fname 1 s)"
  using assms by (simp add: parse_object_def process_object_service_noname)

theorem service_without_name_aborts_batch_witness:
  "good_ambassador_id ex_env ex_service_noname
   \<and> o_kind ex_service_noname = Some ''Service'' \<and> o_name ex_service_noname = None
   \<and> parse_object ex_env [Dict ex_service_noname, Dict ex_mapping] None (Some ''a.yaml'')
         (init :: string fetcher)
       = Inl (KeyError ''name'', push_location (Some ''a.yaml'') 1 init)
   \<and> elements (push_location (Some ''a.yaml'') 1 (init :: string fetcher)) = []
   \<and> (\<exists>s'. parse_object ex_env [Dict ex_mapping] None (Some ''a.yaml'') (init :: string fetcher)
              = Inr s' \<and> elements s' = [''a.yaml.1''])"
proof -
  have h1: "good_ambassador_id ex_env ex_service_noname" by (simp add: ex_env_def)
  have h2: "o_kind ex_service_noname = Some ''Service''" by (simp add: ex_service_noname_def)
  have h3: "o_name ex_service_noname = None" by (simp add: ex_service_noname_def)
  have e: "elements (push_location (Some ''a.yaml'') 1 (init :: string fetcher)) = []"
    by (simp add: push_location_def init_def)
  have m: "\<exists>s'. parse_object ex_env [Dict ex_mapping] None (Some ''a.yaml'') (init :: string fetcher)
              = Inr s' \<and> elements s' = [''a.yaml.1'']"
    by (simp add: parse_object_def process_object_def ex_env_def ex_mapping_def
        push_location_def pop_location_def init_def fmt_s_def str_int_1 Let_def)
  show ?thesis
    using service_without_name_aborts_batch[OF h1 h2 h3, of "[Dict ex_mapping]" None
        "Some ''a.yaml''" "init :: string fetcher"] h1 h2 h3 e m
    by simp
qed

section \<open>The Consul decoder\<close>

lemma consul_endpoints_append:
  "consul_endpoints (xs @ ys) acc =
     (case consul_endpoints xs acc of Inl e \<Rightarrow> Inl e | Inr acc' \<Rightarrow> consul_endpoints ys acc')"
  by (induction xs arbitrary: acc) (auto split: option.splits)

text \<open>
  Claim C9 does not hold of the code. An endpoint without address or port is to be
  skipped, but the message logged for it reads \<open>ep['ID']\<close>: when such an endpoint
  has no \<open>ID\<close> the decoder raises \<open>KeyError\<close> and writes no Service entry, whatever
  endpoints it had kept before.
\<close>

theorem consul_endpoint_without_id_raises:
  assumes "co_Endpoints c = pre @ ep # rest"
    and "consul_endpoints pre [] = Inr kept"
    and "\<not> truthy_str (ce_Address ep) \<or> \<not> truthy_int (ce_Port ep)"
    and "ce_ID ep = None"
  shows "handle_consul_service cf consul_rkey c s = (Inl (KeyError ''ID'', s), None)"
proof -
  have "consul_endpoints (co_Endpoints c) [] = Inl (KeyError ''ID'')"
    using assms by (auto simp: consul_endpoints_append)
  then show ?thesis using assms(1) by (simp add: handle_consul_service_def)
qed

theorem consul_endpoint_without_id_raises_witness:
  "co_Endpoints ex_consul_object = [ex_consul_ok] @ ex_consul_bare # []
   \<and> consul_endpoints [ex_consul_ok] [] = Inr [(PStr ''*'', PList [consul_endpoint ''10.0.0.1'' 9000])]
   \<and> \<not> truthy_str (ce_Address ex_consul_bare)
   \<and> ce_ID ex_consul_bare = None
   \<and> handle_consul_service ex_cfg ''web'' ex_consul_object (init :: string fetcher)
       = (Inl (KeyError ''ID'', init), None)
   \<and> services (init :: string fetcher) = []"
proof -
  have h1: "co_Endpoints ex_consul_object = [ex_consul_ok] @ ex_consul_bare # []"
    by (simp add: ex_consul_object_def)
  have h2: "consul_endpoints [ex_consul_ok] []
            = Inr [(PStr ''*'', PList [consul_endpoint ''10.0.0.1'' 9000])]"
    by (simp add: ex_consul_ok_def append_wildcard_def)
  have h3: "\<not> truthy_str (ce_Address ex_consul_bare) \<or> \<not> truthy_int (ce_Port ex_consul_bare)"
    by (simp add: ex_consul_bare_def)
  have h4: "ce_ID ex_consul_bare = None" by (simp add: ex_consul_bare_def)
  have a: "\<not> truthy_str (ce_Address ex_consul_bare)" by (simp add: ex_consul_bare_def)
  show ?thesis
    using consul_endpoint_without_id_raises[OF h1 h2 h3 h4, of ex_cfg "''web''"
        "init :: string fetcher"] h1 h2 a h4
    by (simp add: init_def)
qed

text \<open>
  What the Consul decoder does when every endpoint that it skips carries an \<open>ID\<close>:
  one entry, with the kept endpoints under \<open>'*'\<close>.
\<close>

lemma fold_append_wildcard:
  "fold append_wildcard es [(PStr ''*'', PList xs)] = [(PStr ''*'', PList (xs @ es))]"
  by (induction es arbitrary: xs) (auto simp: append_wildcard_def)

lemma fold_append_wildcard_Nil:
  "fold append_wildcard es [] = (if es = [] then [] else [(PStr ''*'', PList es)])"
proof (cases es)
  case Nil
  then show ?thesis by simp
next
  case (Cons e es')
  then show ?thesis
    using fold_append_wildcard[of es' "[e]"] by (simp add: append_wildcard_def)
qed

lemma consul_endpoints_ok:
  assumes "\<forall>ep \<in> set eps. \<not> consul_good ep \<longrightarrow> ce_ID ep \<noteq> None"
  shows "consul_endpoints eps acc =
           Inr (fold append_wildcard
                  (map (\<lambda>ep. consul_endpoint (the (ce_Address ep)) (the (ce_Port ep)))
                     (filter consul_good eps)) acc)"
  using assms
  by (induction eps arbitrary: acc) (auto simp: consul_good_def split: option.splits)

lemma handle_consul_service_ok:
  assumes "co_Endpoints c \<noteq> []"
    and "\<forall>ep \<in> set (co_Endpoints c). \<not> consul_good ep \<longrightarrow> ce_ID ep \<noteq> None"
  shows "handle_consul_service cf consul_rkey c s =
           (Inr (s\<lparr>services :=
                    dict_set (consul_service_key consul_rkey c)
                      (consul_service cf consul_rkey c
                         (let es = map (\<lambda>ep. consul_endpoint (the (ce_Address ep)) (the (ce_Port ep)))
                                     (filter consul_good (co_Endpoints c))
                          in if es = [] then [] else [(PStr ''*'', PList es)]))
                      (services s)\<rparr>), None)"
  using assms consul_endpoints_ok[OF assms(2), of "[]"]
  by (cases "co_Endpoints c") (simp_all add: handle_consul_service_def fold_append_wildcard_Nil Let_def)


section \<open>Running the finalizer again\<close>

lemma assign_all_Nil [simp]: "assign_all [] d = d"
  by (simp add: assign_all_def)

lemma assign_all_Cons [simp]: "assign_all ((k, v) # us) d = assign_all us (dict_set k v d)"
  by (simp add: assign_all_def)

lemma resolve_services_assign:
  "fst (resolve_services cf eps ks (svcs, log)) = assign_all (resolved_entries cf eps ks) svcs"
  by (induction ks arbitrary: svcs log) (auto simp: resolved_entries_def)

lemma dict_set_swap:
  "k \<noteq> k' \<Longrightarrow> k \<in> fst ` set d \<or> k' \<in> fst ` set d \<Longrightarrow>
   dict_set k v (dict_set k' v' d) = dict_set k' v' (dict_set k v d)"
  by (induction d) auto

lemma keys_assign_all: "fst ` set (assign_all us d) = fst ` set us \<union> fst ` set d"
proof (induction us arbitrary: d)
  case Nil
  then show ?case by simp
next
  case (Cons u us)
  obtain k v where u: "u = (k, v)" by (cases u)
  show ?case using Cons.IH[of "dict_set k v d"] u by (auto simp: dom_update)
qed

lemma assign_all_overwritten:
  "k \<in> fst ` set us \<Longrightarrow> fst ` set us \<subseteq> fst ` set d \<Longrightarrow>
   assign_all us (dict_set k v d) = assign_all us d"
proof (induction us arbitrary: d)
  case Nil
  then show ?case by simp
next
  case (Cons u us)
  obtain k' v' where u: "u = (k', v')" by (cases u)
  show ?case
  proof (cases "k' = k")
    case True
    with u show ?thesis by simp
  next
    case False
    then have mem: "k \<in> fst ` set us" using Cons.prems u by auto
    have sub: "fst ` set us \<subseteq> fst ` set (dict_set k' v' d)"
      using Cons.prems(2) by (auto simp: dom_update)
    have "k' \<in> fst ` set d" using Cons.prems(2) u by auto
    then have "dict_set k' v' (dict_set k v d) = dict_set k v (dict_set k' v' d)"
      using False dict_set_swap[of k' k d v' v] by simp
    then show ?thesis
      using Cons.IH[OF mem sub] u by simp
  qed
qed

lemma assign_all_commute:
  "k \<notin> fst ` set us \<Longrightarrow> k \<in> fst ` set d \<Longrightarrow>
   assign_all us (dict_set k v d) = dict_set k v (assign_all us d)"
proof (induction us arbitrary: d)
  case Nil
  then show ?case by simp
next
  case (Cons u us)
  obtain k' v' where u: "u = (k', v')" by (cases u)
  then have ne: "k' \<noteq> k" and nm: "k \<notin> fst ` set us" using Cons.prems by auto
  have mem: "k \<in> fst ` set (dict_set k' v' d)"
    using Cons.prems(2) by (auto simp: dom_update)
  have "dict_set k' v' (dict_set k v d) = dict_set k v (dict_set k' v' d)"
    using ne Cons.prems(2) dict_set_swap[of k' k d v' v] by simp
  then show ?case
    using Cons.IH[OF nm mem] u by simp
qed

lemma assign_all_idem: "assign_all us (assign_all us d) = assign_all us d"
proof (induction us arbitrary: d)
  case Nil
  then show ?case by simp
next
  case (Cons u us)
  obtain k v where u: "u = (k, v)" by (cases u)
  let ?T = "assign_all us (dict_set k v d)"
  have ih: "assign_all us ?T = ?T" using Cons.IH .
  have keys: "fst ` set us \<subseteq> fst ` set ?T" and kT: "k \<in> fst ` set ?T"
    by (auto simp: keys_assign_all dom_update)
  have "assign_all us (dict_set k v ?T) = ?T"
  proof (cases "k \<in> fst ` set us")
    case True
    then show ?thesis using assign_all_overwritten[OF True keys] ih by simp
  next
    case False
    have "?T = assign_all us (dict_set k v (dict_set k v d))" by simp
    also have "\<dots> = dict_set k v ?T"
      by (rule assign_all_commute[OF False]) (simp add: dom_update)
    finally have fixp: "dict_set k v ?T = ?T" by simp
    show ?thesis using assign_all_commute[OF False kT, of v] ih fixp by simp
  qed
  then show ?case using u by simp
qed

lemma emit_services_Inr:
  "emit_services env svcs s = Inr s' \<Longrightarrow>
   \<exists>rs. map Inr rs = resources_of env svcs \<and> s' = s\<lparr>elements := elements s @ rs\<rparr>"
proof (induction svcs arbitrary: s)
  case Nil
  then show ?case by (simp add: resources_of_def)
next
  case (Cons a svcs)
  obtain key svc where a: "a = (key, svc)" by (cases a)
  from Cons.prems a obtain r where r: "from_dict env key key (dump_yaml env svc) svc = Inr r"
    and rest: "emit_services env svcs (s\<lparr>elements := elements s @ [r]\<rparr>) = Inr s'"
    by (auto split: sum.splits)
  from Cons.IH[OF rest] obtain rs where
    rs: "map Inr rs = resources_of env svcs"
    "s' = s\<lparr>elements := elements s @ [r], elements := elements (s\<lparr>elements := elements s @ [r]\<rparr>) @ rs\<rparr>"
    by auto
  have "map Inr (r # rs) = resources_of env (a # svcs)"
    using rs(1) r a by (simp add: resources_of_def)
  moreover have "s' = s\<lparr>elements := elements s @ (r # rs)\<rparr>"
    using rs(2) by simp
  ultimately show ?case by blast
qed

lemma emit_services_total:
  "map Inr rs = resources_of env svcs \<Longrightarrow>
   emit_services env svcs t = Inr (t\<lparr>elements := elements t @ rs\<rparr>)"
proof (induction svcs arbitrary: t rs)
  case Nil
  then show ?case by (simp add: resources_of_def)
next
  case (Cons a svcs)
  obtain key svc where a: "a = (key, svc)" by (cases a)
  from Cons.prems a obtain r rs' where rs: "rs = r # rs'"
    and r: "from_dict env key key (dump_yaml env svc) svc = Inr r"
    and rest: "map Inr rs' = resources_of env svcs"
    by (cases rs) (auto simp: resources_of_def)
  show ?case
    using Cons.IH[OF rest, of "t\<lparr>elements := elements t @ [r]\<rparr>"] a r rs by simp
qed

lemma finalize_Inr:
  assumes "finalize env s = Inr s1"
  shows "\<exists>rs. map Inr rs =
               resources_of env
                 (assign_all (resolved_entries (cfg env) (k8s_endpoints s) (k8s_services s))
                    (services s))
            \<and> elements s1 = elements s @ rs
            \<and> services s1 =
                assign_all (resolved_entries (cfg env) (k8s_endpoints s) (k8s_services s))
                  (services s)
            \<and> k8s_services s1 = k8s_services s \<and> k8s_endpoints s1 = k8s_endpoints s"
proof -
  obtain svcs log where rs:
    "resolve_services (cfg env) (k8s_endpoints s) (k8s_services s) (services s, logged s)
       = (svcs, log)"
    by (cases "resolve_services (cfg env) (k8s_endpoints s) (k8s_services s) (services s, logged s)")
  have svcs: "svcs = assign_all (resolved_entries (cfg env) (k8s_endpoints s) (k8s_services s))
                  (services s)"
    using resolve_services_assign[of "cfg env" "k8s_endpoints s" "k8s_services s" "services s" "logged s"]
      rs by simp
  have "emit_services env svcs (s\<lparr>services := svcs, logged := log\<rparr>) = Inr s1"
    using assms rs by (simp add: finalize_def)
  from emit_services_Inr[OF this] obtain rs' where
    "map Inr rs' = resources_of env svcs"
    "s1 = s\<lparr>services := svcs, logged := log,
            elements := elements (s\<lparr>services := svcs, logged := log\<rparr>) @ rs'\<rparr>"
    by auto
  then show ?thesis using svcs by auto
qed

text \<open>
  Claim C8. When the finalizer returns on a state \<open>s\<close>, then on every state with the
  same \<open>k8s_services\<close> and \<open>k8s_endpoints\<close> and with the \<open>services\<close> table
  either of \<open>s\<close> or of the state that the first run left (so in particular on that
  state itself: a second run), it returns too, appends the very same resources and
  leaves the same \<open>services\<close> table.
\<close>

theorem finalize_idempotent:
  assumes "finalize env s = Inr s1"
    and "k8s_services t = k8s_services s" and "k8s_endpoints t = k8s_endpoints s"
    and "services t = services s \<or> services t = services s1"
  shows "\<exists>rs t1. elements s1 = elements s @ rs
                \<and> finalize env t = Inr t1
                \<and> elements t1 = elements t @ rs
                \<and> services t1 = services s1"
proof -
  let ?us = "resolved_entries (cfg env) (k8s_endpoints s) (k8s_services s)"
  from finalize_Inr[OF assms(1)] obtain rs where
    rs: "map Inr rs = resources_of env (assign_all ?us (services s))"
    and el: "elements s1 = elements s @ rs"
    and sv: "services s1 = assign_all ?us (services s)"
    by auto
  have same: "assign_all ?us (services t) = assign_all ?us (services s)"
    using assms(4) sv by (auto simp: assign_all_idem)
  obtain svcs log where r:
    "resolve_services (cfg env) (k8s_endpoints t) (k8s_services t) (services t, logged t)
       = (svcs, log)"
    by (cases "resolve_services (cfg env) (k8s_endpoints t) (k8s_services t) (services t, logged t)")
  have svcs: "svcs = assign_all ?us (services s)"
    using resolve_services_assign[of "cfg env" "k8s_endpoints t" "k8s_services t" "services t" "logged t"]
      r assms(2,3) same by simp
  have "finalize env t = Inr (t\<lparr>services := svcs, logged := log,
            elements := elements t @ rs\<rparr>)"
    using r emit_services_total[of rs env svcs "t\<lparr>services := svcs, logged := log\<rparr>"] rs svcs
    by (simp add: finalize_def)
  then show ?thesis using el sv svcs by auto
qed


lemma resolve_service_example:
  "resolve_service ex_cfg [(''svc.default'', ex_ep_single)] ''svc.default'' ex_svc_web
     = (ex_resolved, [])"
proof -
  have "resolve_targets ''svc.default'' ex_svc_web (Some ex_ep_single)
          = ([(JInt 80, JInt 8080)], [''10.0.0.1''], [])"
    by (simp add: resolve_targets_def ex_ep_single_def ex_svc_web_def resolve_port_def
        ex_port_web_def ex_addr_def)
  then show ?thesis
    by (simp add: resolve_service_def final_addrs_def ex_resolved_def)
qed

lemma k8s_service_key_example: "k8s_service_key ex_svc_web = ''k8s-svc-default''"
  by (simp add: k8s_service_key_def ex_svc_web_def)

lemma finalize_example:
  "finalize ex_env ex_state
     = Inr (ex_state\<lparr> services := [(''k8s-svc-default'', ex_resolved)],
                      logged := [], elements := [''k8s-svc-default''] \<rparr>)"
proof -
  have c: "cfg ex_env = ex_cfg" by (simp add: ex_env_def)
  have f: "from_dict ex_env = (\<lambda>rkey location serialization ob. Inr rkey)"
    by (simp add: ex_env_def)
  show ?thesis
    by (simp add: finalize_def ex_state_def init_def c f resolve_service_example
        k8s_service_key_example)
qed

theorem finalize_idempotent_witness:
  "finalize ex_env ex_state
     = Inr (ex_state\<lparr> services := [(''k8s-svc-default'', ex_resolved)],
                      logged := [], elements := [''k8s-svc-default''] \<rparr>)
   \<and> (\<exists>t1. finalize ex_env
               (ex_state\<lparr> services := [(''k8s-svc-default'', ex_resolved)],
                           logged := [], elements := [''k8s-svc-default''] \<rparr>) = Inr t1
            \<and> elements t1 = [''k8s-svc-default'', ''k8s-svc-default'']
            \<and> services t1 = [(''k8s-svc-default'', ex_resolved)])"
proof -
  let ?s1 = "ex_state\<lparr> services := [(''k8s-svc-default'', ex_resolved)],
                      logged := [], elements := [''k8s-svc-default''] \<rparr>"
  have h: "finalize ex_env ex_state = Inr ?s1" by (rule finalize_example)
  have e: "elements ex_state = []" by (simp add: ex_state_def init_def)
  from finalize_idempotent[OF h, of ?s1] obtain rs t1 where
    "elements ?s1 = elements ex_state @ rs" "finalize ex_env ?s1 = Inr t1"
    "elements t1 = elements ?s1 @ rs" "services t1 = services ?s1"
    by auto
  then show ?thesis using h e by simp
qed

section \<open>The order of the output\<close>

lemma state_of_simps [simp]: "state_of (Inr s) = s" "state_of (Inl (e, s)) = s"
  by (simp_all add: state_of_def)

lemma grows_refl [simp]: "grows s (Inr s)"
  by (simp add: grows_def)


lemma grows_same: "elements s' = elements s \<Longrightarrow> grows s' r \<Longrightarrow> grows s r"
  by (simp add: grows_def)
















lemma grows_post_error: "grows (post_error d s) r \<Longrightarrow> grows s r"
  by (simp add: grows_def post_error_def)





lemma key_order_Nil [simp]: "key_order keys [] = keys"
  by (simp add: key_order_def)

lemma key_order_Cons [simp]:
  "key_order keys (k # ks) = key_order (if k \<in> set keys then keys else keys @ [k]) ks"
  by (simp add: key_order_def)



lemma then_do_simps [simp]: "then_do (Inr s) f = f s" "then_do (Inl e) f = Inl e"
  by (simp_all add: then_do_def)
































section \<open>The keys of the service side table\<close>

text \<open>
  The Service decoder writes an entry under the key \<open>name.namespace\<close> of the name and
  namespace that the entry stores; this is the \<open>key\<close> of the finalizer.
\<close>

lemma handle_k8s_service_key:
  assumes "\<forall>(key, k8s_svc) \<in> set (k8s_services s).
             key = resource_identifier (svc_name k8s_svc) (svc_namespace k8s_svc)"
  shows "\<forall>(key, k8s_svc) \<in> set (k8s_services (fst (handle_k8s_service env ob s))).
           key = resource_identifier (svc_name k8s_svc) (svc_namespace k8s_svc)"
proof -
  have upd: "\<forall>(key, k8s_svc) \<in> set (dict_set (resource_identifier n ns)
                 \<lparr> svc_name = n, svc_namespace = ns, svc_ports = ps \<rparr> (k8s_services s)).
               key = resource_identifier (svc_name k8s_svc) (svc_namespace k8s_svc)"
    for n ns ps
    using assms set_update_subset[of "resource_identifier n ns"
        "\<lparr> svc_name = n, svc_namespace = ns, svc_ports = ps \<rparr>" "k8s_services s"]
    by auto
  show ?thesis
    using assms upd
    by (auto simp: handle_k8s_service_def Let_def split: option.splits)
qed

section \<open>Two scenarios of the specification\<close>

text \<open>
  Scenario A: ports \<open>[{port: 80, targetPort: "http"}]\<close> against the port map
  \<open>{"http": 8080, "8080": 8080}\<close> resolve 80 to 8080. Scenario B: ports
  \<open>[{port: 80}, {port: 443}]\<close> against \<open>{"80": 8080, "443": 8443}\<close> resolve by
  the numeric keys.
\<close>

lemma str_int_443: "str_int 443 = ''443''"
  by (simp add: str_int_def dec.simps digit_char_def)

lemma scenario_a:
  "fst (resolve_ports ''svc.default'' [(''http'', 8080), (''8080'', 8080)] 0 [ex_port_a] ([], []))
     = [(JInt 80, JInt 8080)]"
  by (simp add: resolve_port_def scan_attrs.simps port_get_def ex_port_a_def)

lemma scenario_b:
  "fst (resolve_ports ''svc.default'' [(''80'', 8080), (''443'', 8443)] 0
          [\<lparr> sp_targetPort = None, sp_name = None, sp_port = Some (JInt 80) \<rparr>, ex_port_443]
          ([], []))
     = [(JInt 80, JInt 8080), (JInt 443, JInt 8443)]"
  by (simp add: resolve_port_def scan_attrs.simps port_get_def ex_port_443_def
      str_int_80 str_int_443)

end
